theory Spec2Isabelle
  imports Complex_Main "HOL-Library.Sublist" "HOL-Library.Monad_Syntax"
begin

section \<open>Python strings\<close>

text \<open>
  A Python \<open>str\<close> is modelled as a \<open>string\<close> whose characters are the code points
  below 256.  Python floats are modelled as exact reals, Python integers as \<open>int\<close>, and
  the results of \<open>len\<close> and \<open>str.count\<close>, which are never negative, as \<open>nat\<close>.
\<close>

text \<open>\<open>sub in s\<close>: the substring test.\<close>

fun py_in :: "string \<Rightarrow> string \<Rightarrow> bool" where
  "py_in sub [] = (sub = [])"
| "py_in sub (c # cs) = (prefix sub (c # cs) \<or> py_in sub cs)"

text \<open>
  \<open>s.count(sub)\<close>: the number of non-overlapping occurrences, scanning from the left.
  The counter \<open>k\<close> is the number of characters of the last match still to be skipped.
\<close>

fun count_skip :: "string \<Rightarrow> nat \<Rightarrow> string \<Rightarrow> nat" where
  "count_skip sub k [] = 0"
| "count_skip sub k (c # cs) =
     (if 0 < k then count_skip sub (k - 1) cs
      else if prefix sub (c # cs) then 1 + count_skip sub (length sub - 1) cs
      else count_skip sub 0 cs)"

definition py_count :: "string \<Rightarrow> string \<Rightarrow> nat" where
  "py_count sub s = (if sub = [] then length s + 1 else count_skip sub 0 s)"

text \<open>\<open>s.find(sub)\<close> and \<open>s.rfind(sub)\<close>: the first and the last index, or \<open>-1\<close>.\<close>

fun find_from :: "string \<Rightarrow> nat \<Rightarrow> string \<Rightarrow> int" where
  "find_from sub i [] = (if sub = [] then int i else - 1)"
| "find_from sub i (c # cs) = (if prefix sub (c # cs) then int i else find_from sub (i + 1) cs)"

definition py_find :: "string \<Rightarrow> string \<Rightarrow> int" where
  "py_find sub s = find_from sub 0 s"

fun rfind_from :: "string \<Rightarrow> nat \<Rightarrow> int \<Rightarrow> string \<Rightarrow> int" where
  "rfind_from sub i found [] = (if sub = [] then int i else found)"
| "rfind_from sub i found (c # cs) =
     rfind_from sub (i + 1) (if prefix sub (c # cs) then int i else found) cs"

definition py_rfind :: "string \<Rightarrow> string \<Rightarrow> int" where
  "py_rfind sub s = rfind_from sub 0 (- 1) s"

text \<open>\<open>s[a:b]\<close> for bounds that are not negative, the only ones the code slices with.\<close>

definition py_slice :: "string \<Rightarrow> int \<Rightarrow> int \<Rightarrow> string" where
  "py_slice s a b = drop (nat a) (take (nat b) s)"

text \<open>\<open>s.replace(old, new)\<close>: every non-overlapping occurrence, from the left.\<close>

fun replace_skip :: "string \<Rightarrow> string \<Rightarrow> nat \<Rightarrow> string \<Rightarrow> string" where
  "replace_skip old new k [] = []"
| "replace_skip old new k (c # cs) =
     (if 0 < k then replace_skip old new (k - 1) cs
      else if prefix old (c # cs) then new @ replace_skip old new (length old - 1) cs
      else c # replace_skip old new 0 cs)"

definition py_replace :: "string \<Rightarrow> string \<Rightarrow> string \<Rightarrow> string" where
  "py_replace old new s =
     (if old = [] then new @ concat (map (\<lambda>c. c # new) s) else replace_skip old new 0 s)"

text \<open>\<open>s.lower()\<close> on code points below 256.\<close>

definition lower_char :: "char \<Rightarrow> char" where
  "lower_char c =
     (let n = (of_char c :: nat)
      in if (65 \<le> n \<and> n \<le> 90) \<or> (192 \<le> n \<and> n \<le> 222 \<and> n \<noteq> 215)
         then char_of (n + 32) else c)"

definition py_lower :: "string \<Rightarrow> string" where
  "py_lower s = map lower_char s"

text \<open>
  \<open>s.title()\<close>: a letter that follows a letter is lowered, any other letter is raised.
  The code calls it on pattern and vulnerability keys only, which are ASCII; the model
  treats the letters \<open>A\<close> to \<open>Z\<close> and \<open>a\<close> to \<open>z\<close> as the cased characters.
\<close>

definition is_ascii_upper :: "char \<Rightarrow> bool" where
  "is_ascii_upper c = (65 \<le> (of_char c :: nat) \<and> (of_char c :: nat) \<le> 90)"

definition is_ascii_lower :: "char \<Rightarrow> bool" where
  "is_ascii_lower c = (97 \<le> (of_char c :: nat) \<and> (of_char c :: nat) \<le> 122)"

definition upper_char :: "char \<Rightarrow> char" where
  "upper_char c = (if is_ascii_lower c then char_of ((of_char c :: nat) - 32) else c)"

fun title_from :: "bool \<Rightarrow> string \<Rightarrow> string" where
  "title_from previous_is_cased [] = []"
| "title_from previous_is_cased (c # cs) =
     (if is_ascii_upper c \<or> is_ascii_lower c
      then (if previous_is_cased then lower_char c else upper_char c) # title_from True cs
      else c # title_from False cs)"

definition py_title :: "string \<Rightarrow> string" where
  "py_title s = title_from False s"

text \<open>\<open>s.split('\n')\<close>: the physical lines; the result is never empty.\<close>

fun py_split_nl :: "string \<Rightarrow> string list" where
  "py_split_nl [] = [[]]"
| "py_split_nl (c # cs) =
     (if c = CHR 0x0A then [] # py_split_nl cs
      else (case py_split_nl cs of l # ls \<Rightarrow> (c # l) # ls | [] \<Rightarrow> [[c]]))"

text \<open>\<open>s.strip()\<close>: whitespace removed at both ends.\<close>

definition py_isspace :: "char \<Rightarrow> bool" where
  "py_isspace c =
     (let n = (of_char c :: nat)
      in (9 \<le> n \<and> n \<le> 13) \<or> (28 \<le> n \<and> n \<le> 32) \<or> n = 133 \<or> n = 160)"

definition py_strip :: "string \<Rightarrow> string" where
  "py_strip s = rev (dropWhile py_isspace (rev (dropWhile py_isspace s)))"

text \<open>The truth value of a string: the empty string is false.\<close>

definition str_truthy :: "string \<Rightarrow> bool" where
  "str_truthy s = (s \<noteq> [])"

text \<open>\<open>int(x)\<close> on a float truncates towards zero.\<close>

definition py_int :: "real \<Rightarrow> int" where
  "py_int x = (if 0 \<le> x then \<lfloor>x\<rfloor> else \<lceil>x\<rceil>)"

text \<open>\<open>round(x)\<close> rounds to the nearest integer, a tie to the even one.\<close>

definition py_round :: "real \<Rightarrow> int" where
  "py_round x =
     (if x - of_int \<lfloor>x\<rfloor> < 1/2 then \<lfloor>x\<rfloor>
      else if 1/2 < x - of_int \<lfloor>x\<rfloor> then \<lfloor>x\<rfloor> + 1
      else if even \<lfloor>x\<rfloor> then \<lfloor>x\<rfloor> else \<lfloor>x\<rfloor> + 1)"

section \<open>The detectors of direct\_detection.py\<close>

text \<open>
  Both detectors return dictionaries with fixed keys, modelled as records.  The key
  \<open>'theory'\<close> is the field \<open>theory_name\<close>; the keys \<open>'confidence'\<close> and
  \<open>'references'\<close> of a vulnerability verdict are the fields \<open>vuln_confidence\<close> and
  \<open>vuln_references\<close>.
\<close>

record pattern_match =
  pattern :: string
  confidence :: real
  theory_name :: string
  references :: "string list"

record vulnerability_verdict =
  vulnerability :: string
  severity :: string
  vuln_confidence :: real
  description :: string
  vuln_references :: "string list"

subsection \<open>detect\_patterns\_directly\<close>

text \<open>
  The function appends to the list \<open>detected\<close> in 48 successive \<open>if\<close> statements.
  Each statement is one \<open>rule_\<close> definition, with the local variables it reads bound
  as in the source; the result is the concatenation of the rules in source order.
\<close>

definition rule_singleton_design_pattern :: "string \<Rightarrow> pattern_match list" where
  "rule_singleton_design_pattern java_code =
     (let code_lower = py_lower java_code;
          has_private_constructor = py_in ''private '' java_code \<and> py_in ''()'' java_code;
          has_static_instance = (py_in ''static'' java_code \<and> py_in ''instance'' code_lower) \<or> py_in ''private static'' java_code;
          has_get_instance = py_in ''getInstance'' java_code \<or> py_in ''instance()'' java_code
      in if has_private_constructor \<and> has_static_instance \<and> has_get_instance
         then [\<lparr>pattern = ''singleton_design_pattern'', confidence = 95/100,
                 theory_name = ''Singleton Design Pattern'', references = []\<rparr>]
         else [])"

definition rule_factory_design_pattern :: "string \<Rightarrow> pattern_match list" where
  "rule_factory_design_pattern java_code =
     (let lines = py_split_nl java_code;
          has_factory_keywords = list_ex (\<lambda>kw. py_in kw java_code) [''getCar'', ''getProduct'', ''createButton'', ''create'', ''Factory''];
          has_switch_return = py_in ''switch'' java_code \<and> py_in ''return new'' java_code;
          num_if = length (filter (\<lambda>l. (py_in '' if '' l \<or> py_in '' if('' l \<or> py_in ''if('' l)) lines);
          has_if_return = (num_if \<ge> 2) \<and> py_in ''return new'' java_code;
          num_static = py_count ''static '' java_code
      in if (has_factory_keywords \<and> (has_switch_return \<or> has_if_return)) \<or> (py_in ''Factory'' java_code \<and> py_in ''return new'' java_code \<and> (num_static \<ge> 1))
         then [\<lparr>pattern = ''factory_design_pattern'', confidence = 92/100,
                 theory_name = ''Factory Design Pattern'', references = []\<rparr>]
         else [])"

definition rule_builder_design_pattern :: "string \<Rightarrow> pattern_match list" where
  "rule_builder_design_pattern java_code =
     (let code_lower = py_lower java_code;
          num_classes = py_count ''class '' java_code;
          has_builder_class = (py_in ''Builder'' java_code \<or> py_in ''builder'' code_lower) \<and> (num_classes \<ge> 2);
          has_build_method = py_in ''build()'' java_code \<or> py_in ''.build()'' java_code;
          has_fluent_api = py_in ''return this'' java_code;
          has_chaining = py_count ''return this'' java_code \<ge> 2
      in if (has_builder_class \<and> has_build_method \<and> has_fluent_api) \<or> (has_chaining \<and> has_build_method)
         then [\<lparr>pattern = ''builder_design_pattern'', confidence = 93/100,
                 theory_name = ''Builder Design Pattern'', references = []\<rparr>]
         else [])"

definition rule_prototype_design_pattern :: "string \<Rightarrow> pattern_match list" where
  "rule_prototype_design_pattern java_code =
     (let code_lower = py_lower java_code;
          has_clone = py_in ''.clone()'' java_code \<or> py_in ''clone()'' java_code \<or> (py_in ''@Override'' java_code \<and> py_in ''clone'' code_lower);
          has_cloneable = py_in ''Cloneable'' java_code \<or> py_in ''implements Cloneable'' java_code;
          num_methods = (py_count ''public '' java_code + py_count ''private '' java_code) + py_count ''protected '' java_code;
          has_copy_constructor = (py_in ''public '' java_code \<or> str_truthy ''private '') \<and> py_in ''(this)'' java_code
      in if has_clone \<or> has_cloneable \<or> (has_copy_constructor \<and> (num_methods \<ge> 1))
         then [\<lparr>pattern = ''prototype_design_pattern'', confidence = 9/10,
                 theory_name = ''Prototype Design Pattern'', references = []\<rparr>]
         else [])"

definition rule_abstract_factory_design_pattern :: "string \<Rightarrow> pattern_match list" where
  "rule_abstract_factory_design_pattern java_code =
     (let code_lower = py_lower java_code;
          num_interfaces = py_count ''interface '' java_code;
          has_abstract_factory = py_in ''AbstractFactory'' java_code \<or> (py_in ''abstract'' code_lower \<and> py_in ''Factory'' java_code);
          has_factory_interface = py_in ''interface'' java_code \<and> py_in ''Factory'' java_code;
          has_multiple_create = (py_count ''create'' java_code \<ge> 2) \<or> (py_count ''Factory'' java_code \<ge> 2)
      in if has_abstract_factory \<or> (has_factory_interface \<and> has_multiple_create \<and> (num_interfaces \<ge> 1))
         then [\<lparr>pattern = ''abstract_factory_design_pattern'', confidence = 88/100,
                 theory_name = ''Abstract Factory Design Pattern'', references = []\<rparr>]
         else [])"

definition rule_adapter_design_pattern :: "string \<Rightarrow> pattern_match list" where
  "rule_adapter_design_pattern java_code =
     (let code_lower = py_lower java_code;
          has_adapter = py_in ''Adapter'' java_code;
          has_adaptee = py_in ''adaptee'' code_lower \<or> py_in ''wrapped'' code_lower;
          has_delegation = py_in ''adaptee.'' java_code \<or> py_in ''.playVlc'' java_code \<or> py_in ''legacy.'' java_code
      in if has_adapter \<or> (has_adaptee \<and> py_in ''implements'' java_code) \<or> (has_delegation \<and> py_in ''implements'' java_code)
         then [\<lparr>pattern = ''adapter_design_pattern'', confidence = 91/100,
                 theory_name = ''Adapter Design Pattern'', references = []\<rparr>]
         else [])"

definition rule_decorator_design_pattern :: "string \<Rightarrow> pattern_match list" where
  "rule_decorator_design_pattern java_code =
     (let code_lower = py_lower java_code;
          num_classes = py_count ''class '' java_code;
          has_decorator = py_in ''Decorator'' java_code;
          has_component = py_in ''component'' code_lower \<or> py_in ''Component'' java_code;
          wraps_and_calls = py_in ''component.'' java_code \<and> py_in ''implements'' java_code
      in if has_decorator \<or> (has_component \<and> wraps_and_calls \<and> (num_classes \<ge> 1))
         then [\<lparr>pattern = ''decorator_design_pattern'', confidence = 9/10,
                 theory_name = ''Decorator Design Pattern'', references = []\<rparr>]
         else [])"

definition rule_proxy_design_pattern :: "string \<Rightarrow> pattern_match list" where
  "rule_proxy_design_pattern java_code =
     (let code_lower = py_lower java_code;
          has_proxy = py_in ''Proxy'' java_code;
          has_real_subject = py_in ''real'' code_lower \<and> (py_in ''Subject'' java_code \<or> py_in ''Image'' java_code);
          has_check_access = py_in ''checkAccess'' java_code \<or> (py_in ''check'' code_lower \<and> py_in ''access'' code_lower)
      in if has_proxy \<or> (has_real_subject \<and> has_check_access) \<or> (py_in ''real.'' code_lower \<and> py_in ''implements'' java_code)
         then [\<lparr>pattern = ''proxy_design_pattern'', confidence = 89/100,
                 theory_name = ''Proxy Design Pattern'', references = []\<rparr>]
         else [])"

definition rule_composite_design_pattern :: "string \<Rightarrow> pattern_match list" where
  "rule_composite_design_pattern java_code =
     (let code_lower = py_lower java_code;
          has_composite = py_in ''Composite'' java_code;
          has_children = py_in ''children'' code_lower \<or> py_in ''List<Component>'' java_code;
          has_add_method = py_in ''.add('' java_code \<and> has_children;
          has_loop_children = py_in ''for'' java_code \<and> py_in ''children'' code_lower
      in if has_composite \<or> (has_children \<and> has_add_method) \<or> has_loop_children
         then [\<lparr>pattern = ''composite_design_pattern'', confidence = 88/100,
                 theory_name = ''Composite Design Pattern'', references = []\<rparr>]
         else [])"

definition rule_facade_design_pattern :: "string \<Rightarrow> pattern_match list" where
  "rule_facade_design_pattern java_code =
     (if py_in ''Facade'' java_code
         then [\<lparr>pattern = ''facade_design_pattern'', confidence = 87/100,
                 theory_name = ''Facade Design Pattern'', references = []\<rparr>]
         else [])"

definition rule_bridge_design_pattern :: "string \<Rightarrow> pattern_match list" where
  "rule_bridge_design_pattern java_code =
     (let code_lower = py_lower java_code;
          has_bridge = py_in ''Bridge'' java_code;
          has_implementation = py_in ''implementation'' code_lower \<or> py_in ''DrawingAPI'' java_code;
          has_abstract_shape = py_in ''abstract'' java_code \<and> (py_in ''Shape'' java_code \<or> py_in ''class'' java_code)
      in if has_bridge \<or> (has_implementation \<and> has_abstract_shape)
         then [\<lparr>pattern = ''bridge_design_pattern'', confidence = 86/100,
                 theory_name = ''Bridge Design Pattern'', references = []\<rparr>]
         else [])"

definition rule_flyweight_design_pattern :: "string \<Rightarrow> pattern_match list" where
  "rule_flyweight_design_pattern java_code =
     (let code_lower = py_lower java_code;
          has_flyweight = py_in ''Flyweight'' java_code;
          has_cache = py_in ''cache'' code_lower \<or> py_in ''Map<'' java_code \<or> py_in ''HashMap'' java_code;
          has_get_or_create = py_in ''containsKey'' java_code \<or> (py_in ''get'' java_code \<and> py_in ''put'' java_code)
      in if has_flyweight \<or> (has_cache \<and> has_get_or_create)
         then [\<lparr>pattern = ''flyweight_design_pattern'', confidence = 85/100,
                 theory_name = ''Flyweight Design Pattern'', references = []\<rparr>]
         else [])"

definition rule_strategy_design_pattern :: "string \<Rightarrow> pattern_match list" where
  "rule_strategy_design_pattern java_code =
     (let code_lower = py_lower java_code;
          has_strategy = py_in ''Strategy'' java_code;
          has_context = py_in ''Context'' java_code;
          has_set_strategy = py_in ''setStrategy'' java_code \<or> py_in ''strategy'' code_lower
      in if has_strategy \<or> (has_context \<and> has_set_strategy)
         then [\<lparr>pattern = ''strategy_design_pattern'', confidence = 9/10,
                 theory_name = ''Strategy Design Pattern'', references = []\<rparr>]
         else [])"

definition rule_observer_design_pattern :: "string \<Rightarrow> pattern_match list" where
  "rule_observer_design_pattern java_code =
     (let code_lower = py_lower java_code;
          has_observer = py_in ''Observer'' java_code;
          has_observers_list = py_in ''List<Observer>'' java_code \<or> py_in ''observers'' code_lower;
          has_notify = py_in ''notify'' code_lower \<or> py_in ''update'' code_lower;
          has_attach = py_in ''attach'' code_lower \<or> py_in ''register'' code_lower
      in if has_observer \<or> (has_observers_list \<and> (has_notify \<or> has_attach))
         then [\<lparr>pattern = ''observer_design_pattern'', confidence = 89/100,
                 theory_name = ''Observer Design Pattern'', references = []\<rparr>]
         else [])"

definition rule_command_design_pattern :: "string \<Rightarrow> pattern_match list" where
  "rule_command_design_pattern java_code =
     (let code_lower = py_lower java_code;
          has_command = py_in ''Command'' java_code;
          has_execute = py_in ''execute()'' java_code \<or> py_in ''execute('' java_code;
          has_receiver = py_in ''receiver'' code_lower \<or> (py_in ''Light'' java_code \<and> py_in ''Command'' java_code)
      in if has_command \<or> (has_execute \<and> has_receiver)
         then [\<lparr>pattern = ''command_design_pattern'', confidence = 88/100,
                 theory_name = ''Command Design Pattern'', references = []\<rparr>]
         else [])"

definition rule_template_method_design_pattern :: "string \<Rightarrow> pattern_match list" where
  "rule_template_method_design_pattern java_code =
     (let code_lower = py_lower java_code;
          num_methods = (py_count ''public '' java_code + py_count ''private '' java_code) + py_count ''protected '' java_code;
          has_template = py_in ''Template'' java_code;
          has_abstract_method = py_in ''abstract'' java_code \<and> (num_methods \<ge> 2);
          has_final_method = py_in ''final'' java_code \<and> py_in ''process'' code_lower
      in if has_template \<or> (has_abstract_method \<and> py_in ''abstract void'' java_code) \<or> has_final_method
         then [\<lparr>pattern = ''template_method_design_pattern'', confidence = 87/100,
                 theory_name = ''Template Method Design Pattern'', references = []\<rparr>]
         else [])"

definition rule_iterator_design_pattern :: "string \<Rightarrow> pattern_match list" where
  "rule_iterator_design_pattern java_code =
     (let has_iterator = py_in ''Iterator'' java_code;
          has_has_next = py_in ''hasNext()'' java_code;
          has_next_method = py_in ''next()'' java_code;
          implements_iterator = py_in ''implements Iterator'' java_code
      in if has_iterator \<or> implements_iterator \<or> (has_has_next \<and> has_next_method)
         then [\<lparr>pattern = ''iterator_design_pattern'', confidence = 92/100,
                 theory_name = ''Iterator Design Pattern'', references = []\<rparr>]
         else [])"

definition rule_state_design_pattern :: "string \<Rightarrow> pattern_match list" where
  "rule_state_design_pattern java_code =
     (let num_classes = py_count ''class '' java_code;
          has_state = py_in ''State'' java_code \<and> (num_classes \<ge> 1);
          has_set_state = py_in ''setState'' java_code \<or> py_in ''changeState'' java_code;
          has_state_interface = py_in ''interface State'' java_code
      in if has_state \<or> has_set_state \<or> has_state_interface
         then [\<lparr>pattern = ''state_design_pattern'', confidence = 86/100,
                 theory_name = ''State Design Pattern'', references = []\<rparr>]
         else [])"

definition rule_chain_of_responsibility_design_pattern :: "string \<Rightarrow> pattern_match list" where
  "rule_chain_of_responsibility_design_pattern java_code =
     (let has_chain = py_in ''Chain'' java_code \<or> py_in ''Handler'' java_code;
          has_next_handler = py_in ''nextHandler'' java_code \<or> py_in ''setNext'' java_code;
          has_handle_request = py_in ''handleRequest'' java_code \<or> py_in ''handle('' java_code
      in if has_chain \<or> (has_next_handler \<and> has_handle_request)
         then [\<lparr>pattern = ''chain_of_responsibility_design_pattern'', confidence = 85/100,
                 theory_name = ''Chain Of Responsibility Design Pattern'', references = []\<rparr>]
         else [])"

definition rule_mediator_design_pattern :: "string \<Rightarrow> pattern_match list" where
  "rule_mediator_design_pattern java_code =
     (let has_mediator = py_in ''Mediator'' java_code;
          has_chat = py_in ''Chat'' java_code \<and> py_in ''Mediator'' java_code;
          has_send_message = py_in ''sendMessage'' java_code
      in if has_mediator \<or> (has_chat \<and> has_send_message)
         then [\<lparr>pattern = ''mediator_design_pattern'', confidence = 84/100,
                 theory_name = ''Mediator Design Pattern'', references = []\<rparr>]
         else [])"

definition rule_memento_design_pattern :: "string \<Rightarrow> pattern_match list" where
  "rule_memento_design_pattern java_code =
     (let code_lower = py_lower java_code;
          has_memento = py_in ''Memento'' java_code;
          has_caretaker = py_in ''Caretaker'' java_code;
          has_save_restore = (py_in ''saveState'' java_code \<or> py_in ''save'' code_lower) \<and> py_in ''restore'' code_lower;
          has_originator = py_in ''Originator'' java_code
      in if has_memento \<or> has_caretaker \<or> has_originator \<or> has_save_restore
         then [\<lparr>pattern = ''memento_design_pattern'', confidence = 86/100,
                 theory_name = ''Memento Design Pattern'', references = []\<rparr>]
         else [])"

definition rule_visitor_design_pattern :: "string \<Rightarrow> pattern_match list" where
  "rule_visitor_design_pattern java_code =
     (let has_visitor = py_in ''Visitor'' java_code;
          has_accept = py_in ''accept('' java_code \<or> py_in ''accept ('' java_code;
          has_visit = py_in ''visit('' java_code
      in if has_visitor \<or> (has_accept \<and> has_visit)
         then [\<lparr>pattern = ''visitor_design_pattern'', confidence = 88/100,
                 theory_name = ''Visitor Design Pattern'', references = []\<rparr>]
         else [])"

definition rule_interpreter_design_pattern :: "string \<Rightarrow> pattern_match list" where
  "rule_interpreter_design_pattern java_code =
     (let has_interpreter = py_in ''Interpreter'' java_code \<or> py_in ''Expression'' java_code;
          has_interpret = py_in ''interpret()'' java_code \<or> py_in ''interpret('' java_code;
          has_number_expr = py_in ''NumberExpression'' java_code \<or> py_in ''AddExpression'' java_code
      in if has_interpreter \<or> has_interpret \<or> has_number_expr
         then [\<lparr>pattern = ''interpreter_design_pattern'', confidence = 87/100,
                 theory_name = ''Interpreter Design Pattern'', references = []\<rparr>]
         else [])"

definition rule_dependency_injection :: "string \<Rightarrow> pattern_match list" where
  "rule_dependency_injection java_code =
     (if py_in ''@Autowired'' java_code \<or> py_in ''@Inject'' java_code
         then [\<lparr>pattern = ''dependency_injection'', confidence = 94/100,
                 theory_name = ''Dependency Injection'', references = []\<rparr>]
         else [])"

definition rule_spring_mvc_pattern :: "string \<Rightarrow> pattern_match list" where
  "rule_spring_mvc_pattern java_code =
     (let has_rest_controller = py_in ''@RestController'' java_code \<or> py_in ''@Controller'' java_code;
          has_mapping = py_in ''@GetMapping'' java_code \<or> py_in ''@PostMapping'' java_code \<or> py_in ''@RequestMapping'' java_code
      in if has_rest_controller \<and> has_mapping
         then [\<lparr>pattern = ''spring_mvc_pattern'', confidence = 93/100,
                 theory_name = ''Spring MVC Pattern'', references = []\<rparr>]
         else [])"

definition rule_restful_api_pattern :: "string \<Rightarrow> pattern_match list" where
  "rule_restful_api_pattern java_code =
     (let has_rest_controller = py_in ''@RestController'' java_code \<or> py_in ''@Controller'' java_code;
          has_api_methods = (py_count ''@GetMapping'' java_code + py_count ''@PostMapping'' java_code) + py_count ''@PutMapping'' java_code
      in if (has_api_methods \<ge> 2) \<or> (has_rest_controller \<and> py_in ''@RequestMapping'' java_code)
         then [\<lparr>pattern = ''restful_api_pattern'', confidence = 92/100,
                 theory_name = ''RESTful API Pattern'', references = []\<rparr>]
         else [])"

definition rule_repository_pattern :: "string \<Rightarrow> pattern_match list" where
  "rule_repository_pattern java_code =
     (if py_in ''@Repository'' java_code \<or> py_in ''JpaRepository'' java_code \<or> py_in ''CrudRepository'' java_code
         then [\<lparr>pattern = ''repository_pattern'', confidence = 93/100,
                 theory_name = ''Repository Pattern'', references = []\<rparr>]
         else [])"

definition rule_service_layer_pattern :: "string \<Rightarrow> pattern_match list" where
  "rule_service_layer_pattern java_code =
     (if py_in ''@Service'' java_code
         then [\<lparr>pattern = ''service_layer_pattern'', confidence = 91/100,
                 theory_name = ''Service Layer Pattern'', references = []\<rparr>]
         else [])"

definition rule_dto_pattern :: "string \<Rightarrow> pattern_match list" where
  "rule_dto_pattern java_code =
     (let num_methods = (py_count ''public '' java_code + py_count ''private '' java_code) + py_count ''protected '' java_code;
          has_dto_name = py_in ''DTO'' java_code;
          has_getters_setters = (py_in ''getUsername'' java_code \<or> py_in ''get'' java_code) \<and> (py_in ''setUsername'' java_code \<or> py_in ''set'' java_code)
      in if has_dto_name \<or> (has_getters_setters \<and> (num_methods \<ge> 2) \<and> (num_methods \<le> 10))
         then [\<lparr>pattern = ''dto_pattern'', confidence = 89/100,
                 theory_name = ''DTO Pattern'', references = []\<rparr>]
         else [])"

definition rule_aop_pattern :: "string \<Rightarrow> pattern_match list" where
  "rule_aop_pattern java_code =
     (if py_in ''@Aspect'' java_code \<or> ((py_in ''@Before'' java_code \<or> py_in ''@After'' java_code) \<and> py_in ''JoinPoint'' java_code)
         then [\<lparr>pattern = ''aop_pattern'', confidence = 92/100,
                 theory_name = ''AOP Pattern'', references = []\<rparr>]
         else [])"

definition rule_oop_fundamentals :: "string \<Rightarrow> pattern_match list" where
  "rule_oop_fundamentals java_code =
     (let num_classes = py_count ''class '' java_code
      in if (py_in ''extends'' java_code \<or> py_in ''@Override'' java_code) \<and> (num_classes \<ge> 1)
         then [\<lparr>pattern = ''oop_fundamentals'', confidence = 88/100,
                 theory_name = ''OOP Fundamentals'', references = []\<rparr>]
         else [])"

definition rule_collections_framework :: "string \<Rightarrow> pattern_match list" where
  "rule_collections_framework java_code =
     (let has_list = py_in ''ArrayList'' java_code \<or> py_in ''List<'' java_code;
          has_set = py_in ''HashSet'' java_code \<or> py_in ''Set<'' java_code;
          has_map = py_in ''HashMap'' java_code \<or> py_in ''Map<'' java_code;
          has_collection_ops = py_in ''.add('' java_code \<or> py_in ''.put('' java_code
      in if (has_list \<or> has_set \<or> has_map) \<and> has_collection_ops
         then [\<lparr>pattern = ''collections_framework'', confidence = 9/10,
                 theory_name = ''Collections Framework'', references = []\<rparr>]
         else [])"

definition rule_exception_handling :: "string \<Rightarrow> pattern_match list" where
  "rule_exception_handling java_code =
     (if py_in ''@ExceptionHandler'' java_code \<or> py_in ''@RestControllerAdvice'' java_code \<or> py_in ''@ControllerAdvice'' java_code
         then [\<lparr>pattern = ''exception_handling'', confidence = 92/100,
                 theory_name = ''Exception Handling'', references = []\<rparr>]
         else [])"

definition rule_conditional_control_flow :: "string \<Rightarrow> pattern_match list" where
  "rule_conditional_control_flow java_code =
     (let lines = py_split_nl java_code;
          num_if = length (filter (\<lambda>l. (py_in '' if '' l \<or> py_in '' if('' l \<or> py_in ''if('' l)) lines)
      in if (py_in ''switch'' java_code \<and> py_in ''case'' java_code) \<or> (py_in ''else if'' java_code \<and> (num_if \<ge> 1))
         then [\<lparr>pattern = ''conditional_control_flow'', confidence = 86/100,
                 theory_name = ''Conditional Control Flow'', references = []\<rparr>]
         else [])"

definition rule_loops_and_iteration :: "string \<Rightarrow> pattern_match list" where
  "rule_loops_and_iteration java_code =
     (let lines = py_split_nl java_code;
          num_for = length (filter (\<lambda>l. (py_in '' for '' l \<or> py_in '' for('' l \<or> py_in ''for('' l)) lines)
      in if (num_for \<ge> 1) \<or> py_in ''forEach'' java_code
         then [\<lparr>pattern = ''loops_and_iteration'', confidence = 85/100,
                 theory_name = ''Loops And Iteration'', references = []\<rparr>]
         else [])"

definition rule_basic_programming_constructs :: "string \<Rightarrow> pattern_match list" where
  "rule_basic_programming_constructs java_code =
     (let num_classes = py_count ''class '' java_code;
          num_methods = (py_count ''public '' java_code + py_count ''private '' java_code) + py_count ''protected '' java_code
      in if (num_methods \<le> 5) \<and> (num_classes \<le> 2)
         then [\<lparr>pattern = ''basic_programming_constructs'', confidence = 8/10,
                 theory_name = ''Basic Programming Constructs'', references = []\<rparr>]
         else [])"

definition rule_optional_null_safety :: "string \<Rightarrow> pattern_match list" where
  "rule_optional_null_safety java_code =
     (if py_in ''Optional<'' java_code \<or> py_in ''Optional.'' java_code \<or> py_in ''.orElse'' java_code
         then [\<lparr>pattern = ''optional_null_safety'', confidence = 91/100,
                 theory_name = ''Optional Null Safety'', references = []\<rparr>]
         else [])"

definition rule_functional_programming :: "string \<Rightarrow> pattern_match list" where
  "rule_functional_programming java_code =
     (if py_in ''->'' java_code \<or> py_in ''.stream()'' java_code \<or> py_in ''Collectors'' java_code
         then [\<lparr>pattern = ''functional_programming'', confidence = 9/10,
                 theory_name = ''Functional Programming'', references = []\<rparr>]
         else [])"

definition rule_spring_boot_error_handling :: "string \<Rightarrow> pattern_match list" where
  "rule_spring_boot_error_handling java_code =
     (if py_in ''@ControllerAdvice'' java_code \<or> (py_in ''@ExceptionHandler'' java_code \<and> py_in ''@'' java_code)
         then [\<lparr>pattern = ''spring_boot_error_handling'', confidence = 93/100,
                 theory_name = ''Spring Boot Error Handling'', references = []\<rparr>]
         else [])"

definition rule_reactive_programming :: "string \<Rightarrow> pattern_match list" where
  "rule_reactive_programming java_code =
     (if (py_in ''Mono<'' java_code \<or> py_in ''Flux<'' java_code) \<and> (py_in ''WebClient'' java_code \<or> py_in ''webClient'' java_code)
         then [\<lparr>pattern = ''reactive_programming'', confidence = 92/100,
                 theory_name = ''Reactive Programming'', references = []\<rparr>]
         else [])"

definition rule_utility_libraries :: "string \<Rightarrow> pattern_match list" where
  "rule_utility_libraries java_code =
     (if py_in ''Utils'' java_code \<or> py_in ''Helper'' java_code
         then [\<lparr>pattern = ''utility_libraries'', confidence = 84/100,
                 theory_name = ''Utility Libraries'', references = []\<rparr>]
         else [])"

definition rule_lombok_jpa_annotations :: "string \<Rightarrow> pattern_match list" where
  "rule_lombok_jpa_annotations java_code =
     (if py_in ''@Data'' java_code \<or> py_in ''@Entity'' java_code \<or> py_in ''@Id'' java_code \<or> py_in ''@GeneratedValue'' java_code
         then [\<lparr>pattern = ''lombok_jpa_annotations'', confidence = 91/100,
                 theory_name = ''Lombok JPA Annotations'', references = []\<rparr>]
         else [])"

definition rule_core_annotations_di :: "string \<Rightarrow> pattern_match list" where
  "rule_core_annotations_di java_code =
     (if (py_in ''@Component'' java_code \<or> py_in ''@Service'' java_code \<or> py_in ''@Repository'' java_code) \<and> (py_in ''@Autowired'' java_code \<or> py_in ''@Value'' java_code)
         then [\<lparr>pattern = ''core_annotations_di'', confidence = 9/10,
                 theory_name = ''Core Annotations DI'', references = []\<rparr>]
         else [])"

definition rule_web_mvc_annotations :: "string \<Rightarrow> pattern_match list" where
  "rule_web_mvc_annotations java_code =
     (if py_in ''@Controller'' java_code \<or> py_in ''@RequestParam'' java_code
         then [\<lparr>pattern = ''web_mvc_annotations'', confidence = 89/100,
                 theory_name = ''Web MVC Annotations'', references = []\<rparr>]
         else [])"

definition rule_http_request_processing :: "string \<Rightarrow> pattern_match list" where
  "rule_http_request_processing java_code =
     (if py_in ''@RequestBody'' java_code \<or> py_in ''@ResponseBody'' java_code \<or> py_in ''ResponseEntity'' java_code
         then [\<lparr>pattern = ''http_request_processing'', confidence = 88/100,
                 theory_name = ''HTTP Request Processing'', references = []\<rparr>]
         else [])"

definition rule_openapi_documentation :: "string \<Rightarrow> pattern_match list" where
  "rule_openapi_documentation java_code =
     (if py_in ''@Api'' java_code \<or> py_in ''@ApiOperation'' java_code \<or> py_in ''@ApiResponse'' java_code
         then [\<lparr>pattern = ''openapi_documentation'', confidence = 91/100,
                 theory_name = ''OpenAPI Documentation'', references = []\<rparr>]
         else [])"

definition rule_spring_data_jpa :: "string \<Rightarrow> pattern_match list" where
  "rule_spring_data_jpa java_code =
     (if py_in ''@Entity'' java_code \<or> py_in ''JpaRepository'' java_code \<or> py_in ''@Query'' java_code
         then [\<lparr>pattern = ''spring_data_jpa'', confidence = 92/100,
                 theory_name = ''Spring Data JPA'', references = []\<rparr>]
         else [])"

definition rule_batch_processing_etl :: "string \<Rightarrow> pattern_match list" where
  "rule_batch_processing_etl java_code =
     (if py_in ''@EnableBatchProcessing'' java_code \<or> py_in ''JobBuilderFactory'' java_code \<or> py_in ''.chunk('' java_code
         then [\<lparr>pattern = ''batch_processing_etl'', confidence = 89/100,
                 theory_name = ''Batch Processing ETL'', references = []\<rparr>]
         else [])"

definition detect_patterns_directly :: "string \<Rightarrow> pattern_match list" where
  "detect_patterns_directly java_code =
     rule_singleton_design_pattern java_code
     @ rule_factory_design_pattern java_code
     @ rule_builder_design_pattern java_code
     @ rule_prototype_design_pattern java_code
     @ rule_abstract_factory_design_pattern java_code
     @ rule_adapter_design_pattern java_code
     @ rule_decorator_design_pattern java_code
     @ rule_proxy_design_pattern java_code
     @ rule_composite_design_pattern java_code
     @ rule_facade_design_pattern java_code
     @ rule_bridge_design_pattern java_code
     @ rule_flyweight_design_pattern java_code
     @ rule_strategy_design_pattern java_code
     @ rule_observer_design_pattern java_code
     @ rule_command_design_pattern java_code
     @ rule_template_method_design_pattern java_code
     @ rule_iterator_design_pattern java_code
     @ rule_state_design_pattern java_code
     @ rule_chain_of_responsibility_design_pattern java_code
     @ rule_mediator_design_pattern java_code
     @ rule_memento_design_pattern java_code
     @ rule_visitor_design_pattern java_code
     @ rule_interpreter_design_pattern java_code
     @ rule_dependency_injection java_code
     @ rule_spring_mvc_pattern java_code
     @ rule_restful_api_pattern java_code
     @ rule_repository_pattern java_code
     @ rule_service_layer_pattern java_code
     @ rule_dto_pattern java_code
     @ rule_aop_pattern java_code
     @ rule_oop_fundamentals java_code
     @ rule_collections_framework java_code
     @ rule_exception_handling java_code
     @ rule_conditional_control_flow java_code
     @ rule_loops_and_iteration java_code
     @ rule_basic_programming_constructs java_code
     @ rule_optional_null_safety java_code
     @ rule_functional_programming java_code
     @ rule_spring_boot_error_handling java_code
     @ rule_reactive_programming java_code
     @ rule_utility_libraries java_code
     @ rule_lombok_jpa_annotations java_code
     @ rule_core_annotations_di java_code
     @ rule_web_mvc_annotations java_code
     @ rule_http_request_processing java_code
     @ rule_openapi_documentation java_code
     @ rule_spring_data_jpa java_code
     @ rule_batch_processing_etl java_code"

subsection \<open>detect\_vulnerabilities\_directly\<close>

definition detect_vulnerabilities_directly :: "string \<Rightarrow> vulnerability_verdict" where
  "detect_vulnerabilities_directly java_code =
     (if ((py_in ''+'' java_code \<or> py_in ''concat'' (py_lower java_code))
           \<and> (py_in ''SELECT'' java_code \<or> py_in ''select'' (py_lower java_code)))
         \<or> (py_in ''\"SELECT'' java_code \<and> py_in ''+'' java_code)
      then \<lparr>vulnerability = ''sql_injection'', severity = ''HIGH'', vuln_confidence = 92/100,
            description = ''SQL Injection vulnerability detected - unsafe string concatenation in SQL query'',
            vuln_references = []\<rparr>
      else if (py_in ''@GetMapping'' java_code \<and> py_in ''return \"<'' java_code)
         \<or> (py_in ''<div>'' java_code \<and> py_in ''+'' java_code)
      then \<lparr>vulnerability = ''xss'', severity = ''HIGH'', vuln_confidence = 90/100,
            description = ''XSS vulnerability detected - unescaped HTML output'',
            vuln_references = []\<rparr>
      else if ((py_in ''File('' java_code \<or> py_in ''Paths.get'' java_code) \<and> py_in ''+'' java_code)
         \<or> (py_in ''uploads'' (py_lower java_code) \<and> py_in ''+'' java_code)
      then \<lparr>vulnerability = ''path_traversal'', severity = ''HIGH'', vuln_confidence = 88/100,
            description = ''Path Traversal vulnerability detected - unsafe file path handling'',
            vuln_references = []\<rparr>
      else if (py_in ''DocumentBuilderFactory'' java_code \<or> py_in ''parseXML'' java_code)
         \<and> \<not> py_in ''setFeature'' java_code
      then \<lparr>vulnerability = ''xxe'', severity = ''MEDIUM'', vuln_confidence = 85/100,
            description = ''XXE vulnerability detected - unprotected XML parsing'',
            vuln_references = []\<rparr>
      else if py_in ''password.length()'' java_code \<or> py_in ''.equals(\"admin\")'' java_code
         \<or> (py_in ''.length() >'' java_code \<and> py_in ''password'' (py_lower java_code))
      then \<lparr>vulnerability = ''authentication_bypass'', severity = ''CRITICAL'', vuln_confidence = 87/100,
            description = ''Authentication Bypass vulnerability detected - weak authentication logic'',
            vuln_references = []\<rparr>
      else if py_in ''ObjectInputStream'' java_code \<and> py_in ''.readObject()'' java_code
      then \<lparr>vulnerability = ''insecure_deserialization'', severity = ''CRITICAL'', vuln_confidence = 89/100,
            description = ''Insecure Deserialization vulnerability detected - unsafe object deserialization'',
            vuln_references = []\<rparr>
      else if (py_in ''BCryptPasswordEncoder'' java_code \<or> py_in ''encoder.encode'' java_code)
         \<and> py_in ''@Valid'' java_code
      then \<lparr>vulnerability = ''none'', severity = ''LOW'', vuln_confidence = 95/100,
            description = ''Secure implementation detected - proper password hashing and validation'',
            vuln_references = []\<rparr>
      else \<lparr>vulnerability = ''none'', severity = ''LOW'', vuln_confidence = 50/100,
            description = ''No obvious vulnerabilities detected'',
            vuln_references = []\<rparr>)"

section \<open>The metrics of api\_server.py\<close>

subsection \<open>extract\_code\_metrics: counts and pattern flags\<close>

text \<open>
  The local variables of \<open>extract_code_metrics\<close> that the returned metrics depend on.
  The function computes further flags that no metric reads; they are left out.
\<close>

definition num_classes :: "string \<Rightarrow> nat" where
  "num_classes java_code =
     (py_count ''class '' java_code)"

definition num_interfaces :: "string \<Rightarrow> nat" where
  "num_interfaces java_code =
     (py_count ''interface '' java_code)"

definition num_methods :: "string \<Rightarrow> nat" where
  "num_methods java_code =
     ((py_count ''public '' java_code + py_count ''private '' java_code) + py_count ''protected '' java_code)"

definition num_static :: "string \<Rightarrow> nat" where
  "num_static java_code =
     (py_count ''static '' java_code)"

definition num_if :: "string \<Rightarrow> nat" where
  "num_if java_code =
     (let lines = py_split_nl java_code
      in length (filter (\<lambda>l. (py_in '' if '' l \<or> py_in '' if('' l \<or> py_in ''if('' l)) lines))"

definition num_for :: "string \<Rightarrow> nat" where
  "num_for java_code =
     (let lines = py_split_nl java_code
      in length (filter (\<lambda>l. (py_in '' for '' l \<or> py_in '' for('' l \<or> py_in ''for('' l)) lines))"

definition num_while :: "string \<Rightarrow> nat" where
  "num_while java_code =
     (let lines = py_split_nl java_code
      in length (filter (\<lambda>l. (py_in '' while '' l \<or> py_in '' while('' l)) lines))"

definition num_switch :: "string \<Rightarrow> nat" where
  "num_switch java_code =
     (let lines = py_split_nl java_code
      in length (filter (\<lambda>l. py_in ''switch'' l) lines))"

definition is_singleton :: "string \<Rightarrow> bool" where
  "is_singleton java_code =
     (let code_lower = py_lower java_code;
          has_private_constructor = py_in ''private '' java_code \<and> py_in ''()'' java_code;
          has_static_instance = (py_in ''static'' java_code \<and> py_in ''instance'' code_lower) \<or> py_in ''private static'' java_code;
          has_get_instance = py_in ''getInstance'' java_code \<or> py_in ''instance()'' java_code
      in has_private_constructor \<and> has_static_instance \<and> has_get_instance)"

definition is_factory :: "string \<Rightarrow> bool" where
  "is_factory java_code =
     (let has_factory_keywords = list_ex (\<lambda>kw. py_in kw java_code) [''getCar'', ''getProduct'', ''createButton'', ''create'', ''Factory''];
          has_switch_return = py_in ''switch'' java_code \<and> py_in ''return new'' java_code;
          has_if_return = (num_if java_code \<ge> 2) \<and> py_in ''return new'' java_code
      in (has_factory_keywords \<and> (has_switch_return \<or> has_if_return)) \<or> (py_in ''Factory'' java_code \<and> py_in ''return new'' java_code \<and> (num_static java_code \<ge> 1)))"

definition is_builder :: "string \<Rightarrow> bool" where
  "is_builder java_code =
     (let code_lower = py_lower java_code;
          has_builder_class = (py_in ''Builder'' java_code \<or> py_in ''builder'' code_lower) \<and> (num_classes java_code \<ge> 2);
          has_build_method = py_in ''build()'' java_code \<or> py_in ''.build()'' java_code;
          has_fluent_api = py_in ''return this'' java_code;
          has_chaining = py_count ''return this'' java_code \<ge> 2
      in (has_builder_class \<and> has_build_method \<and> has_fluent_api) \<or> (has_chaining \<and> has_build_method))"

definition is_prototype :: "string \<Rightarrow> bool" where
  "is_prototype java_code =
     (let code_lower = py_lower java_code;
          has_clone = py_in ''.clone()'' java_code \<or> py_in ''clone()'' java_code \<or> (py_in ''@Override'' java_code \<and> py_in ''clone'' code_lower);
          has_cloneable = py_in ''Cloneable'' java_code \<or> py_in ''implements Cloneable'' java_code;
          has_copy_constructor = (py_in ''public '' java_code \<or> str_truthy ''private '') \<and> py_in ''(this)'' java_code
      in has_clone \<or> has_cloneable \<or> (has_copy_constructor \<and> (num_methods java_code \<ge> 1)))"

definition is_abstract_factory :: "string \<Rightarrow> bool" where
  "is_abstract_factory java_code =
     (let code_lower = py_lower java_code;
          has_abstract_factory = py_in ''AbstractFactory'' java_code \<or> (py_in ''abstract'' code_lower \<and> py_in ''Factory'' java_code);
          has_factory_interface = py_in ''interface'' java_code \<and> py_in ''Factory'' java_code;
          has_multiple_create = (py_count ''create'' java_code \<ge> 2) \<or> (py_count ''Factory'' java_code \<ge> 2)
      in has_abstract_factory \<or> (has_factory_interface \<and> has_multiple_create \<and> (num_interfaces java_code \<ge> 1)))"

definition is_adapter :: "string \<Rightarrow> bool" where
  "is_adapter java_code =
     (let code_lower = py_lower java_code;
          has_adapter = py_in ''Adapter'' java_code;
          has_adaptee = py_in ''adaptee'' code_lower \<or> py_in ''wrapped'' code_lower;
          has_delegation = py_in ''adaptee.'' java_code \<or> py_in ''.playVlc'' java_code \<or> py_in ''legacy.'' java_code
      in has_adapter \<or> (has_adaptee \<and> py_in ''implements'' java_code) \<or> (has_delegation \<and> py_in ''implements'' java_code))"

definition is_decorator :: "string \<Rightarrow> bool" where
  "is_decorator java_code =
     (let code_lower = py_lower java_code;
          has_decorator = py_in ''Decorator'' java_code;
          has_component = py_in ''component'' code_lower \<or> py_in ''Component'' java_code;
          wraps_and_calls = py_in ''component.'' java_code \<and> py_in ''implements'' java_code
      in has_decorator \<or> (has_component \<and> wraps_and_calls \<and> (num_classes java_code \<ge> 1)))"

definition is_proxy :: "string \<Rightarrow> bool" where
  "is_proxy java_code =
     (let code_lower = py_lower java_code;
          has_proxy = py_in ''Proxy'' java_code;
          has_real_subject = py_in ''real'' code_lower \<and> (py_in ''Subject'' java_code \<or> py_in ''Image'' java_code);
          has_check_access = py_in ''checkAccess'' java_code \<or> (py_in ''check'' code_lower \<and> py_in ''access'' code_lower)
      in has_proxy \<or> (has_real_subject \<and> has_check_access) \<or> (py_in ''real.'' code_lower \<and> py_in ''implements'' java_code))"

definition is_composite :: "string \<Rightarrow> bool" where
  "is_composite java_code =
     (let code_lower = py_lower java_code;
          has_composite = py_in ''Composite'' java_code;
          has_children = py_in ''children'' code_lower \<or> py_in ''List<Component>'' java_code;
          has_add_method = py_in ''.add('' java_code \<and> has_children;
          has_loop_children = py_in ''for'' java_code \<and> py_in ''children'' code_lower
      in has_composite \<or> (has_children \<and> has_add_method) \<or> has_loop_children)"

definition is_facade :: "string \<Rightarrow> bool" where
  "is_facade java_code =
     (let has_facade = py_in ''Facade'' java_code;
          has_multiple_systems = (py_count ''System'' java_code \<ge> 2) \<or> (py_count ''.'' java_code \<ge> 5);
          simplifies = (num_methods java_code \<ge> 2) \<and> has_multiple_systems
      in has_facade \<or> (simplifies \<and> (num_classes java_code \<le> 3)))"

definition is_bridge :: "string \<Rightarrow> bool" where
  "is_bridge java_code =
     (let code_lower = py_lower java_code;
          has_bridge = py_in ''Bridge'' java_code;
          has_implementation = py_in ''implementation'' code_lower \<or> py_in ''DrawingAPI'' java_code;
          has_abstract_shape = py_in ''abstract'' java_code \<and> (py_in ''Shape'' java_code \<or> py_in ''class'' java_code)
      in has_bridge \<or> (has_implementation \<and> has_abstract_shape))"

definition is_flyweight :: "string \<Rightarrow> bool" where
  "is_flyweight java_code =
     (let code_lower = py_lower java_code;
          has_flyweight = py_in ''Flyweight'' java_code;
          has_cache = py_in ''cache'' code_lower \<or> py_in ''Map<'' java_code \<or> py_in ''HashMap'' java_code;
          has_get_or_create = py_in ''containsKey'' java_code \<or> (py_in ''get'' java_code \<and> py_in ''put'' java_code)
      in has_flyweight \<or> (has_cache \<and> has_get_or_create))"

definition is_strategy :: "string \<Rightarrow> bool" where
  "is_strategy java_code =
     (let code_lower = py_lower java_code;
          has_strategy = py_in ''Strategy'' java_code;
          has_context = py_in ''Context'' java_code;
          has_set_strategy = py_in ''setStrategy'' java_code \<or> py_in ''strategy'' code_lower
      in has_strategy \<or> (has_context \<and> has_set_strategy))"

definition is_observer :: "string \<Rightarrow> bool" where
  "is_observer java_code =
     (let code_lower = py_lower java_code;
          has_observer = py_in ''Observer'' java_code;
          has_observers_list = py_in ''List<Observer>'' java_code \<or> py_in ''observers'' code_lower;
          has_notify = py_in ''notify'' code_lower \<or> py_in ''update'' code_lower;
          has_attach = py_in ''attach'' code_lower \<or> py_in ''register'' code_lower
      in has_observer \<or> (has_observers_list \<and> (has_notify \<or> has_attach)))"

definition is_command :: "string \<Rightarrow> bool" where
  "is_command java_code =
     (let code_lower = py_lower java_code;
          has_command = py_in ''Command'' java_code;
          has_execute = py_in ''execute()'' java_code \<or> py_in ''execute('' java_code;
          has_receiver = py_in ''receiver'' code_lower \<or> (py_in ''Light'' java_code \<and> py_in ''Command'' java_code)
      in has_command \<or> (has_execute \<and> has_receiver))"

definition is_spring_mvc :: "string \<Rightarrow> bool" where
  "is_spring_mvc java_code =
     (let has_rest_controller = py_in ''@RestController'' java_code \<or> py_in ''@Controller'' java_code;
          has_mapping = py_in ''@GetMapping'' java_code \<or> py_in ''@PostMapping'' java_code \<or> py_in ''@RequestMapping'' java_code;
          has_path_variable = py_in ''@PathVariable'' java_code \<or> py_in ''@RequestBody'' java_code
      in has_rest_controller \<and> (has_mapping \<or> has_path_variable))"

definition is_restful_api :: "string \<Rightarrow> bool" where
  "is_restful_api java_code =
     (let has_rest_controller = py_in ''@RestController'' java_code \<or> py_in ''@Controller'' java_code;
          has_api_methods = (py_count ''@GetMapping'' java_code + py_count ''@PostMapping'' java_code) + py_count ''@PutMapping'' java_code
      in (has_api_methods \<ge> 2) \<or> (has_rest_controller \<and> py_in ''@RequestMapping'' java_code))"

definition is_service_layer :: "string \<Rightarrow> bool" where
  "is_service_layer java_code =
     (let has_autowired = py_in ''@Autowired'' java_code;
          has_service = py_in ''@Service'' java_code;
          has_transactional = py_in ''@Transactional'' java_code
      in has_service \<or> (has_transactional \<and> has_autowired))"

definition is_exception_handling :: "string \<Rightarrow> bool" where
  "is_exception_handling java_code =
     (let has_exception_handler = py_in ''@ExceptionHandler'' java_code;
          has_controller_advice = py_in ''@RestControllerAdvice'' java_code \<or> py_in ''@ControllerAdvice'' java_code;
          has_try_catch = py_in ''try'' java_code \<and> py_in ''catch'' java_code;
          has_throws = py_in ''throws'' java_code
      in has_exception_handler \<or> has_controller_advice \<or> has_try_catch \<or> has_throws)"

definition is_spring_error :: "string \<Rightarrow> bool" where
  "is_spring_error java_code =
     (let has_exception_handler = py_in ''@ExceptionHandler'' java_code;
          has_controller_advice = py_in ''@RestControllerAdvice'' java_code \<or> py_in ''@ControllerAdvice'' java_code
      in has_controller_advice \<or> (has_exception_handler \<and> py_in ''@'' java_code))"

definition is_reactive :: "string \<Rightarrow> bool" where
  "is_reactive java_code =
     (let has_mono = py_in ''Mono<'' java_code;
          has_flux = py_in ''Flux<'' java_code;
          has_webclient = py_in ''WebClient'' java_code \<or> py_in ''webClient'' java_code;
          has_reactive_ops = py_in ''.bodyToMono'' java_code \<or> py_in ''.retrieve()'' java_code
      in (has_mono \<or> has_flux) \<and> (has_webclient \<or> has_reactive_ops))"

definition has_sql_concat :: "string \<Rightarrow> bool" where
  "has_sql_concat java_code =
     (let code_lower = py_lower java_code
      in (py_in ''+'' java_code \<or> py_in ''concat'' code_lower) \<and> (py_in ''SELECT'' java_code \<or> py_in ''select'' code_lower))"

definition has_string_query :: "string \<Rightarrow> bool" where
  "has_string_query java_code =
     (py_in ''\"SELECT'' java_code \<and> py_in ''+'' java_code)"

definition has_bcrypt :: "string \<Rightarrow> bool" where
  "has_bcrypt java_code =
     (py_in ''BCryptPasswordEncoder'' java_code \<or> py_in ''encoder.encode'' java_code)"

subsection \<open>extract\_code\_metrics: the returned row\<close>

text \<open>
  The number of parameters: for each line holding both parentheses, the text from the
  first \<open>(\<close> to the last \<open>)\<close> is cut out and its commas are counted.
\<close>

definition count_parameters :: "string list \<Rightarrow> int" where
  "count_parameters lines =
     fold (\<lambda>line num_parameters.
        if py_in ''('' line \<and> py_in '')'' line
        then (let start = py_find ''('' line;
                  stop = py_rfind '')'' line
              in if start \<noteq> - 1 \<and> stop \<noteq> - 1 \<and> start < stop
                 then (let params = py_slice line start (stop + 1)
                       in if str_truthy params \<and> params \<noteq> ''()''
                          then num_parameters + (int (py_count '','' params) + 1)
                          else num_parameters)
                 else num_parameters)
        else num_parameters) lines 0"

text \<open>
  The function returns a one-row data frame whose row \<open>analyze_code\<close> reads as a
  series.  The columns hold integers and floats, so the series holds floats: the row is
  an association list from column names to reals.
\<close>

type_synonym series = "(string \<times> real) list"

definition extract_code_metrics :: "string \<Rightarrow> series" where
  "extract_code_metrics java_code =
     (let lines = py_split_nl java_code;
          non_empty_lines = filter (\<lambda>l. str_truthy (py_strip l)) lines;
          code_lower = py_lower java_code;
          cohesion =
            (if is_singleton java_code then 92/100
             else if is_factory java_code then 85/100
             else if is_builder java_code then 88/100
             else if is_prototype java_code then 82/100
             else if is_abstract_factory java_code then 80/100
             else if is_adapter java_code \<or> is_decorator java_code \<or> is_proxy java_code then 78/100
             else if is_composite java_code \<or> is_facade java_code \<or> is_bridge java_code then 75/100
             else if is_flyweight java_code then 73/100
             else if is_strategy java_code \<or> is_observer java_code \<or> is_command java_code then 77/100
             else if is_service_layer java_code then 75/100
             else if is_spring_mvc java_code \<or> is_restful_api java_code then 70/100
             else if is_exception_handling java_code \<or> is_spring_error java_code then 80/100
             else if is_reactive java_code then 76/100
             else 60/100);
          cyclomatic = 1 + int (num_if java_code) + int (num_for java_code)
                         + int (num_while java_code) + int (num_switch java_code);
          cyclomatic = (if num_switch java_code > 0
                        then cyclomatic + (int (py_count ''case '' java_code) - 1)
                        else cyclomatic);
          cyclomatic = (if py_in ''try'' java_code \<and> py_in ''catch'' java_code
                        then cyclomatic + int (py_count ''catch'' java_code)
                        else cyclomatic);
          inheritance = py_count ''extends'' java_code + py_count ''implements'' java_code;
          coupling = max 2 (py_count ''import'' java_code);
          num_parameters = count_parameters lines;
          num_annotations = py_count ''@'' java_code;
          di_usage =
            (if py_in ''@Autowired'' java_code then 8/10
             else if py_in ''@Inject'' java_code then 7/10
             else if py_in ''@Component'' java_code \<or> py_in ''@Service'' java_code then 5/10
             else 2/10);
          network_indicators =
            [''HttpClient'', ''RestTemplate'', ''WebClient'', ''webClient'', ''http'', ''.get()'', ''.post()''];
          num_network_calls = sum_list (map (\<lambda>ind. py_count ind java_code) network_indicators);
          sql_keywords =
            [''select'', ''insert'', ''update'', ''delete'', ''create table'', ''drop table'',
             ''SELECT'', ''INSERT''];
          num_sql_queries = sum_list (map (\<lambda>kw. py_count kw java_code) sql_keywords);
          input_validation_ratio = 1/10;
          input_validation_ratio =
            (if py_in ''@Valid'' java_code \<or> py_in ''validate'' code_lower \<or> py_in ''sanitize'' code_lower
             then 8/10
             else if py_in ''?'' java_code \<and> (py_in ''query'' code_lower \<or> py_in ''SELECT'' java_code)
             then 7/10
             else if py_in ''StringEscapeUtils'' java_code \<or> py_in ''normalize'' code_lower
             then 6/10
             else if has_sql_concat java_code \<or> has_string_query java_code
             then 1/10
             else input_validation_ratio)
      in [(''cyclomatic_complexity'', real_of_int (min 50 cyclomatic)),
          (''cognitive_complexity'', real_of_int (min 100 (cyclomatic * 2))),
          (''nesting_depth'', real (max 1 (py_count ''    '' java_code div 4))),
          (''lines_of_code'', real (length non_empty_lines)),
          (''num_methods'', real (max 1 (num_methods java_code))),
          (''num_classes'', real (max 1 (num_classes java_code))),
          (''num_parameters'', real_of_int num_parameters),
          (''code_duplication'', 0),
          (''test_coverage'', 5/10),
          (''comment_ratio'',
             real (length (filter (\<lambda>l. py_in ''//'' l \<or> py_in ''/*'' l) lines))
               / real (max 1 (length lines))),
          (''inheritance_depth'', real inheritance),
          (''coupling'', real coupling),
          (''cohesion'', cohesion),
          (''num_sql_queries'', real num_sql_queries),
          (''num_file_operations'',
             real (py_count ''File'' java_code + py_count ''FileReader'' java_code
                   + py_count ''FileWriter'' java_code)),
          (''num_network_calls'', real num_network_calls),
          (''input_validation_ratio'', input_validation_ratio),
          (''uses_encryption'',
             (if has_bcrypt java_code \<or> py_in ''Cipher'' java_code \<or> py_in ''encrypt'' code_lower
              then 1 else 0)),
          (''num_annotations'', real num_annotations),
          (''dependency_injection_usage'', di_usage)])"

section \<open>The report of api\_server.py\<close>

subsection \<open>Static tables\<close>

text \<open>
  The dictionaries and lists that the formatting functions define locally, in source
  order: \<open>descriptions\<close> (get\_pattern\_short\_description), \<open>pattern_keywords\<close>
  (extract\_matched\_words), \<open>security_references\<close> (the \<open>references\<close> of
  get\_security\_references), \<open>type_mapping\<close> (format\_vulnerability\_type),
  \<open>default_references\<close> (the \<open>references\<close> of get\_default\_references) and the
  category lists of categorize\_pattern.
\<close>

definition descriptions :: "(string \<times> string) list" where
  "descriptions =
     [(''singleton_design_pattern'', ''Ensures a class has only one instance and provides global access to it through static method or field.''),
      (''factory_design_pattern'', ''Creates objects without exposing instantiation logic and refers to newly created object using common interface.''),
      (''builder_design_pattern'', ''Constructs complex objects step by step and allows different types and representations using same construction code.''),
      (''observer_design_pattern'', ''Defines subscription mechanism to notify multiple objects about events happening to observed object.''),
      (''strategy_design_pattern'', ''Defines family of algorithms, encapsulates each one, and makes them interchangeable at runtime.''),
      (''adapter_design_pattern'', ''Allows objects with incompatible interfaces to collaborate by wrapping existing class with new interface.''),
      (''decorator_design_pattern'', ''Attaches new behaviors to objects by placing them inside wrapper objects containing behaviors.''),
      (''facade_design_pattern'', ''Provides simplified interface to complex subsystem, library, or framework reducing coupling.''),
      (''proxy_design_pattern'', ''Provides placeholder or surrogate for another object to control access, lazy loading, or add functionality.''),
      (''command_design_pattern'', ''Encapsulates request as object, allowing parameterization, queuing, logging, and undo operations.''),
      (''template_method_design_pattern'', ''Defines skeleton of algorithm in superclass, letting subclasses override specific steps without changing structure.''),
      (''chain_of_responsibility_design_pattern'', ''Passes requests along chain of handlers until one handles it, decoupling sender from receiver.''),
      (''state_design_pattern'', ''Allows object to alter behavior when internal state changes, appearing as if object changed class.''),
      (''mediator_design_pattern'', ''Defines how set of objects interact, promoting loose coupling by preventing direct references.''),
      (''visitor_design_pattern'', ''Separates algorithms from object structure, allowing new operations without modifying existing classes.''),
      (''iterator_design_pattern'', ''Provides way to access elements of aggregate object sequentially without exposing underlying representation.''),
      (''composite_design_pattern'', ''Composes objects into tree structures to represent part-whole hierarchies uniformly.''),
      (''bridge_design_pattern'', ''Separates abstraction from implementation, allowing both to vary independently without affecting each other.''),
      (''flyweight_design_pattern'', ''Minimizes memory usage by sharing efficiently common data among multiple objects.''),
      (''prototype_design_pattern'', ''Creates objects by cloning existing instance rather than creating new ones from scratch.''),
      (''abstract_factory_design_pattern'', ''Provides interface for creating families of related objects without specifying concrete classes.''),
      (''interpreter_design_pattern'', ''Defines grammar representation for language and interpreter to process sentences in that language.''),
      (''memento_design_pattern'', ''Captures and externalizes object internal state for restoration without violating encapsulation.''),
      (''spring_mvc_annotations'', ''Provides annotations for MVC web development including request mapping, validation, and response handling.''),
      (''core_annotations_di'', ''Implements dependency injection through annotations for bean management and lifecycle control.''),
      (''web_mvc_annotations'', ''Enables web application development with controller mapping, parameter binding, and view resolution.''),
      (''spring_data_jpa'', ''Simplifies database access with repository patterns, query generation, and transaction management.''),
      (''spring_security_oauth2'', ''Implements OAuth2 authentication and authorization for secure API access and token management.''),
      (''reactive_programming'', ''Enables non-blocking, asynchronous programming with reactive streams and backpressure handling.''),
      (''spring_boot_error_handling'', ''Provides comprehensive error handling strategies with global exception management and custom responses.''),
      (''batch_processing_etl'', ''Implements batch processing patterns for ETL operations with chunk processing and job management.''),
      (''utility_libraries'', ''Integrates utility libraries for common functionality like validation, mapping, and data transformation.''),
      (''lombok_jpa_annotations'', ''Reduces boilerplate code using Lombok annotations with JPA entity management and relationship mapping.''),
      (''microservices_communication'', ''Implements communication patterns between microservices using HTTP, messaging, and service discovery.''),
      (''http_request_processing'', ''Handles HTTP request processing with filters, interceptors, and content negotiation.''),
      (''openapi_documentation'', ''Generates API documentation using OpenAPI/Swagger specifications with interactive interface.''),
      (''object_oriented_fundamentals'', ''Applies object-oriented programming principles including encapsulation, inheritance, and polymorphism.''),
      (''collections_framework'', ''Utilizes Java Collections API for data structure management and manipulation with streams.''),
      (''exception_handling'', ''Implements comprehensive exception handling strategies with custom exceptions and error recovery.''),
      (''concurrency_multithreading'', ''Manages concurrent execution with thread safety, synchronization, and parallel processing.''),
      (''lambda_expressions'', ''Uses functional programming with lambda expressions for concise and expressive code.''),
      (''stream_api'', ''Processes collections using Stream API for filtering, mapping, and reduction operations.''),
      (''optional_null_safety'', ''Prevents null pointer exceptions using Optional wrapper for safer null handling.''),
      (''modern_syntax'', ''Applies modern Java syntax features including var keyword, switch expressions, and text blocks.''),
      (''aws_sdk_integration'', ''Integrates AWS services using SDK for cloud-native application development and deployment.'')]"

definition pattern_keywords :: "(string \<times> string list) list" where
  "pattern_keywords =
     [(''singleton_design_pattern'', [''singleton'', ''instance'', ''static'', ''private'']),
      (''factory_design_pattern'', [''factory'', ''create'', ''newinstance'', ''builder'']),
      (''observer_design_pattern'', [''observer'', ''notify'', ''update'', ''listener'']),
      (''spring_mvc_annotations'', [''controller'', ''requestmapping'', ''autowired'', ''service'']),
      (''core_annotations_di'', [''autowired'', ''component'', ''service'', ''repository'']),
      (''spring_data_jpa'', [''repository'', ''entity'', ''jpa'', ''transactional'']),
      (''object_oriented_fundamentals'', [''class'', ''public'', ''private'', ''protected'']),
      (''aws_sdk_integration'', [''aws'', ''sdk'', ''client'', ''service''])]"

definition security_references :: "(string \<times> string list) list" where
  "security_references =
     [(''sql_injection'', [''https://owasp.org/www-community/attacks/SQL_Injection'', ''https://www.baeldung.com/sql-injection'', ''https://cheatsheetseries.owasp.org/cheatsheets/SQL_Injection_Prevention_Cheat_Sheet.html'']),
      (''xss'', [''https://owasp.org/www-community/attacks/xss/'', ''https://cheatsheetseries.owasp.org/cheatsheets/Cross_Site_Scripting_Prevention_Cheat_Sheet.html'', ''https://www.baeldung.com/spring-prevent-xss'']),
      (''xxe'', [''https://owasp.org/www-community/vulnerabilities/XML_External_Entity_(XXE)_Processing'', ''https://cheatsheetseries.owasp.org/cheatsheets/XML_External_Entity_Prevention_Cheat_Sheet.html'', ''https://www.baeldung.com/spring-xml-injection'']),
      (''path_traversal'', [''https://owasp.org/www-community/attacks/Path_Traversal'', ''https://cheatsheetseries.owasp.org/cheatsheets/Input_Validation_Cheat_Sheet.html'', ''https://www.baeldung.com/spring-security-path-traversal'']),
      (''authentication_bypass'', [''https://owasp.org/www-community/attacks/Authentication_bypass'', ''https://cheatsheetseries.owasp.org/cheatsheets/Authentication_Cheat_Sheet.html'', ''https://www.baeldung.com/spring-security-authentication'']),
      (''insecure_deserialization'', [''https://owasp.org/www-community/vulnerabilities/Deserialization_of_untrusted_data'', ''https://cheatsheetseries.owasp.org/cheatsheets/Deserialization_Cheat_Sheet.html'', ''https://www.baeldung.com/java-deserialization-security'']),
      (''weak_cryptography'', [''https://owasp.org/www-community/vulnerabilities/Insecure_Cryptographic_Storage'', ''https://cheatsheetseries.owasp.org/cheatsheets/Cryptographic_Storage_Cheat_Sheet.html'', ''https://www.baeldung.com/java-encryption''])]"

definition type_mapping :: "(string \<times> string) list" where
  "type_mapping =
     [(''sql_injection'', ''SQL Injection''),
      (''xss'', ''XSS''),
      (''xxe'', ''XXE''),
      (''path_traversal'', ''Path Traversal''),
      (''authentication_bypass'', ''Authentication Bypass''),
      (''insecure_deserialization'', ''Insecure Deserialization''),
      (''weak_cryptography'', ''Weak Cryptography'')]"

definition default_references :: "(string \<times> string list) list" where
  "default_references =
     [(''singleton_design_pattern'', [''https://refactoring.guru/design-patterns/singleton'', ''https://www.baeldung.com/java-singleton'', ''https://docs.oracle.com/javase/tutorial/java/javaOO/initial.html'']),
      (''factory_design_pattern'', [''https://refactoring.guru/design-patterns/factory-method'', ''https://www.baeldung.com/java-factory-pattern'', ''https://docs.oracle.com/javase/tutorial/java/javaOO/objectcreation.html'']),
      (''builder_design_pattern'', [''https://refactoring.guru/design-patterns/builder'', ''https://www.baeldung.com/java-builder-pattern'', ''https://docs.oracle.com/javase/tutorial/java/javaOO/objectcreation.html'']),
      (''observer_design_pattern'', [''https://refactoring.guru/design-patterns/observer'', ''https://www.baeldung.com/java-observer-pattern'', ''https://docs.oracle.com/javase/7/docs/api/java/util/Observer.html'']),
      (''strategy_design_pattern'', [''https://refactoring.guru/design-patterns/strategy'', ''https://www.baeldung.com/java-strategy-pattern'']),
      (''spring_mvc_annotations'', [''https://docs.spring.io/spring-framework/docs/current/reference/html/web.html'', ''https://www.baeldung.com/spring-mvc-tutorial'', ''https://spring.io/guides/gs/serving-web-content/'']),
      (''core_annotations_di'', [''https://docs.spring.io/spring-framework/docs/current/reference/html/core.html#beans'', ''https://www.baeldung.com/spring-dependency-injection'', ''https://spring.io/guides/gs/managing-transactions/'']),
      (''spring_data_jpa'', [''https://docs.spring.io/spring-data/jpa/docs/current/reference/html/'', ''https://www.baeldung.com/spring-data-jpa-tutorial'', ''https://spring.io/guides/gs/accessing-data-jpa/'']),
      (''object_oriented_fundamentals'', [''https://docs.oracle.com/javase/tutorial/java/concepts/'', ''https://www.baeldung.com/java-oop'', ''https://docs.oracle.com/javase/tutorial/java/javaOO/''])]"

definition creational :: "string list" where
  "creational =
     [''singleton_design_pattern'', ''Singleton Design Pattern'', ''factory_design_pattern'',
      ''builder_design_pattern'', ''prototype_design_pattern'',
      ''abstract_factory_design_pattern'', ''singleton'', ''factory'', ''builder'',
      ''prototype'', ''abstract_factory'']"

definition structural :: "string list" where
  "structural =
     [''adapter_design_pattern'', ''decorator_design_pattern'', ''proxy_design_pattern'',
      ''composite_design_pattern'', ''facade_design_pattern'', ''bridge_design_pattern'',
      ''flyweight_design_pattern'', ''adapter'', ''decorator'', ''proxy'', ''composite'',
      ''facade'', ''bridge'', ''flyweight'']"

definition behavioral :: "string list" where
  "behavioral =
     [''strategy_design_pattern'', ''observer_design_pattern'', ''command_design_pattern'',
      ''template_method_design_pattern'', ''iterator_design_pattern'', ''state_design_pattern'',
      ''chain_of_responsibility_design_pattern'', ''mediator_design_pattern'',
      ''memento_design_pattern'', ''visitor_design_pattern'', ''interpreter_design_pattern'',
      ''strategy'', ''observer'', ''command'', ''template_method'', ''iterator'', ''state'',
      ''chain_of_responsibility'', ''mediator'', ''memento'', ''visitor'', ''interpreter'']"

definition spring :: "string list" where
  "spring =
     [''dependency_injection'', ''spring_mvc_pattern'', ''restful_api_pattern'',
      ''repository_pattern'', ''service_layer_pattern'', ''dto_pattern'', ''aop_pattern'',
      ''mvc'', ''restful_api'', ''repository'', ''service_layer'', ''dto'', ''aop'']"

definition java_concepts :: "string list" where
  "java_concepts =
     [''oop_fundamentals'', ''collections_framework'', ''exception_handling'',
      ''conditional_control_flow'', ''loops_and_iteration'', ''basic_programming_constructs'']"

definition modern_java :: "string list" where
  "modern_java =
     [''optional_null_safety'', ''functional_programming'', ''stream_api'']"

definition spring_boot :: "string list" where
  "spring_boot =
     [''spring_boot_error_handling'', ''reactive_programming'', ''utility_libraries'',
      ''lombok_jpa_annotations'']"

definition web_dev :: "string list" where
  "web_dev =
     [''core_annotations_di'', ''web_mvc_annotations'', ''http_request_processing'']"

definition api_docs :: "string list" where
  "api_docs =
     [''openapi_documentation'']"

definition database :: "string list" where
  "database =
     [''spring_data_jpa'', ''batch_processing_etl'']"

subsection \<open>Formatting functions\<close>

definition format_pattern_name_for_display :: "string \<Rightarrow> string" where
  "format_pattern_name_for_display pattern_name =
     (if \<not> str_truthy pattern_name \<or> pattern_name = ''unknown'' then pattern_name
      else (let display_name = py_title (py_replace ''_'' '' '' pattern_name);
                display_name = py_replace ''Api'' ''API'' display_name;
                display_name = py_replace ''Http'' ''HTTP'' display_name;
                display_name = py_replace ''Jpa'' ''JPA'' display_name;
                display_name = py_replace ''Di'' ''DI'' display_name;
                display_name = py_replace ''Etl'' ''ETL'' display_name;
                display_name = py_replace ''Mvc'' ''MVC'' display_name;
                display_name = py_replace ''Openapi'' ''OpenAPI'' display_name
            in display_name))"

definition get_pattern_short_description :: "string \<Rightarrow> string" where
  "get_pattern_short_description pattern_name =
     (case map_of descriptions pattern_name of
        Some d \<Rightarrow> d
      | None \<Rightarrow> ''Advanced programming concept or design pattern implementation.'')"

definition extract_matched_words :: "string \<Rightarrow> string \<Rightarrow> string list" where
  "extract_matched_words code pattern_name =
     (if \<not> str_truthy code then []
      else (let code_lower = py_lower code;
                keywords = (case map_of pattern_keywords pattern_name of
                              Some ks \<Rightarrow> ks
                            | None \<Rightarrow> [''class'', ''public'', ''private'']);
                matched_words = filter (\<lambda>keyword. py_in keyword code_lower) keywords
            in take 5 matched_words))"

definition get_security_references :: "string \<Rightarrow> string list" where
  "get_security_references vulnerability_type =
     (case map_of security_references (py_lower vulnerability_type) of
        Some refs \<Rightarrow> refs
      | None \<Rightarrow> [''https://owasp.org/www-community/'', ''https://cheatsheetseries.owasp.org/''])"

definition format_vulnerability_type :: "string \<Rightarrow> string" where
  "format_vulnerability_type vuln_type =
     (case map_of type_mapping (py_lower vuln_type) of
        Some t \<Rightarrow> t
      | None \<Rightarrow> py_title (py_replace ''_'' '' '' vuln_type))"

definition get_default_references :: "string \<Rightarrow> string list" where
  "get_default_references pattern_name =
     (case map_of default_references pattern_name of
        Some refs \<Rightarrow> refs
      | None \<Rightarrow> [''https://docs.oracle.com/javase/tutorial/'',
                 ''https://www.baeldung.com/java-tutorial'',
                 ''https://spring.io/guides''])"

definition categorize_pattern :: "string \<Rightarrow> string" where
  "categorize_pattern pattern_name =
     (if pattern_name \<in> set creational then ''CREATIONAL DESIGN PATTERNS''
      else if pattern_name \<in> set structural then ''STRUCTURAL DESIGN PATTERNS''
      else if pattern_name \<in> set behavioral then ''BEHAVIORAL DESIGN PATTERNS''
      else if pattern_name \<in> set spring then ''SPRING FRAMEWORK PATTERNS''
      else if pattern_name \<in> set java_concepts then ''CORE JAVA CONCEPTS''
      else if pattern_name \<in> set modern_java then ''MODERN JAVA FEATURES''
      else if pattern_name \<in> set spring_boot then ''SPRING BOOT ECOSYSTEM''
      else if pattern_name \<in> set web_dev then ''WEB DEVELOPMENT''
      else if pattern_name \<in> set api_docs then ''API DOCUMENTATION''
      else if pattern_name \<in> set database then ''DATABASE INTEGRATION''
      else ''OTHER PATTERNS'')"

subsection \<open>analyze\_code\<close>

text \<open>
  The entries of the response are JSON objects: association lists from keys to values.
  \<open>d[k]\<close> is \<open>map_of d k\<close>, where \<open>None\<close> stands for the \<open>KeyError\<close> that the handler
  turns into the response 500.
\<close>

datatype pyval = Str string | IntVal int | StrList "string list"

type_synonym pydict = "(string \<times> pyval) list"

datatype error =
    BadRequest string
  | InternalServerError

record report =
  complexityScore :: int
  detectedConcepts :: "pydict list"
  linesOfCode :: nat
  qualityScore :: int
  recommendations :: "string list"
  overallRisk :: string
  vulnerabilities :: "pydict list"

text \<open>Step 4, the quality score: the weighted sum, converted by \<open>int\<close>.\<close>

definition calculate_quality_score :: "series \<Rightarrow> int option" where
  "calculate_quality_score metrics =
     do {
       code_duplication \<leftarrow> map_of metrics ''code_duplication'';
       test_coverage \<leftarrow> map_of metrics ''test_coverage'';
       comment_ratio \<leftarrow> map_of metrics ''comment_ratio'';
       cohesion \<leftarrow> map_of metrics ''cohesion'';
       Some (py_int ((1 - min code_duplication 1) * 25
                     + test_coverage * 25
                     + min (comment_ratio / (3/10)) 1 * 25
                     + cohesion * 25))
     }"

definition calculate_complexity_score :: "series \<Rightarrow> int option" where
  "calculate_complexity_score metrics =
     do {
       cyclomatic_complexity \<leftarrow> map_of metrics ''cyclomatic_complexity'';
       Some (min (py_int cyclomatic_complexity) 100)
     }"

definition count_lines_of_code :: "string \<Rightarrow> nat" where
  "count_lines_of_code java_code =
     length (filter (\<lambda>line. str_truthy (py_strip line)) (py_split_nl java_code))"

text \<open>The loop over \<open>theory_results\<close>: one concept per detected pattern.\<close>

definition transform_pattern :: "string \<Rightarrow> nat \<Rightarrow> pattern_match \<Rightarrow> pydict" where
  "transform_pattern java_code lines_of_code p =
     (let raw_pattern_name = pattern p;
          display_name = format_pattern_name_for_display raw_pattern_name;
          pattern_references = references p;
          pattern_references = (if pattern_references = []
                                then get_default_references raw_pattern_name
                                else pattern_references)
      in [(''name'', Str display_name),
          (''category'', Str (categorize_pattern raw_pattern_name)),
          (''description'', Str (get_pattern_short_description raw_pattern_name)),
          (''theory'', Str (theory_name p)),
          (''referenceLinks'', StrList pattern_references),
          (''matchedWords'', StrList (extract_matched_words java_code raw_pattern_name)),
          (''linesOfCode'', IntVal (int lines_of_code))])"

definition transform_patterns :: "string \<Rightarrow> nat \<Rightarrow> pattern_match list \<Rightarrow> pydict list" where
  "transform_patterns java_code lines_of_code theory_results =
     map (transform_pattern java_code lines_of_code) theory_results"

text \<open>The security verdict becomes a list of at most one vulnerability.\<close>

definition transform_vulnerabilities :: "vulnerability_verdict \<Rightarrow> pydict list" where
  "transform_vulnerabilities security_results =
     (let vuln_type = vulnerability security_results
      in if vuln_type \<noteq> ''none''
         then (let formatted_type = format_vulnerability_type vuln_type;
                   vulnerability_references = get_security_references vuln_type
               in [[(''type'', Str formatted_type),
                    (''severity'', Str (severity security_results)),
                    (''description'', Str (description security_results)),
                    (''remediation'',
                       Str (''Address '' @ formatted_type
                            @ '' vulnerability by implementing proper security controls'')),
                    (''references'', StrList vulnerability_references)]])
         else [])"

text \<open>
  The severities \<open>v['severity']\<close> of all entries; \<open>None\<close> when an entry has no such
  key.
\<close>

definition severities :: "pydict list \<Rightarrow> pyval list option" where
  "severities vulns = those (map (\<lambda>v. map_of v ''severity'') vulns)"

definition determine_overall_risk :: "pyval list \<Rightarrow> string" where
  "determine_overall_risk sevs =
     (let overall_risk = ''LOW''
      in if list_ex (\<lambda>s. s \<in> set [Str ''CRITICAL'', Str ''HIGH'']) sevs
         then (if list_ex (\<lambda>s. s = Str ''CRITICAL'') sevs then ''HIGH'' else ''MEDIUM'')
         else overall_risk)"

definition generate_recommendations :: "pyval list \<Rightarrow> int \<Rightarrow> int \<Rightarrow> series \<Rightarrow> string list" where
  "generate_recommendations sevs complexity_score quality_score metrics =
     (let recs = [];
          critical_count = length (filter (\<lambda>s. s = Str ''CRITICAL'') sevs);
          high_count = length (filter (\<lambda>s. s = Str ''HIGH'') sevs);
          recs = (if critical_count > 0
                  then recs @ [''Critical security issue detected! Immediate action required.'']
                  else recs);
          recs = (if high_count > 0
                  then recs @ [''High severity vulnerability detected. Address immediately.'']
                  else recs);
          recs = (if complexity_score > 70
                  then recs @ [''Consider breaking down complex methods into smaller, more manageable functions'']
                  else recs);
          recs = (if quality_score < 60
                  then recs @ [''Add proper exception handling with try-catch blocks'']
                  else recs);
          recs = (if (case map_of metrics ''test_coverage'' of Some t \<Rightarrow> t | None \<Rightarrow> 0) < 7/10
                  then recs @ [''Increase test coverage to at least 70%'']
                  else recs);
          recs = (if recs = []
                  then recs @ [''Code follows good practices. Continue maintaining quality standards.'']
                  else recs)
      in recs)"

text \<open>
  The handler.  Its argument is the \<open>code\<close> field of the request, \<open>None\<close> when the
  field is missing.  The flags \<open>isinstance(\<dots>, dict)\<close> hold for everything the detectors
  return and are not modelled.
\<close>

definition analyze_code :: "string option \<Rightarrow> error + report" where
  "analyze_code request_code =
     (case request_code of
        None \<Rightarrow> Inl (BadRequest ''Missing \"code\" field in request'')
      | Some java_code \<Rightarrow>
          if \<not> str_truthy (py_strip java_code) then Inl (BadRequest ''Code cannot be empty'')
          else
            (let code_metrics = extract_code_metrics java_code;
                 theory_results = detect_patterns_directly java_code;
                 security_results = detect_vulnerabilities_directly java_code;
                 metrics = code_metrics;
                 lines_of_code = count_lines_of_code java_code;
                 detected_concepts = transform_patterns java_code lines_of_code theory_results;
                 vulns = transform_vulnerabilities security_results
             in case do {
                  quality_score \<leftarrow> calculate_quality_score metrics;
                  complexity_score \<leftarrow> calculate_complexity_score metrics;
                  sevs \<leftarrow> severities vulns;
                  Some \<lparr>complexityScore = complexity_score,
                        detectedConcepts = detected_concepts,
                        linesOfCode = lines_of_code,
                        qualityScore = quality_score,
                        recommendations =
                          generate_recommendations sevs complexity_score quality_score metrics,
                        overallRisk = determine_overall_risk sevs,
                        vulnerabilities = vulns\<rparr>
                } of
                  Some response \<Rightarrow> Inr response
                | None \<Rightarrow> Inl InternalServerError))"

section \<open>The specification's reading of the rules\<close>

text \<open>
  An ordered decision list: the result of the first rule whose predicate holds, and the
  default when none does.
\<close>

fun first_match :: "(('a \<Rightarrow> bool) \<times> 'b) list \<Rightarrow> 'b \<Rightarrow> 'a \<Rightarrow> 'b" where
  "first_match [] dflt x = dflt"
| "first_match ((p, r) # rules) dflt x = (if p x then r else first_match rules dflt x)"

text \<open>The raw predicates of the seven vulnerability rules, in priority order.\<close>

definition sql_injection_predicate :: "string \<Rightarrow> bool" where
  "sql_injection_predicate s =
     (((py_in ''+'' s \<or> py_in ''concat'' (py_lower s))
        \<and> (py_in ''SELECT'' s \<or> py_in ''select'' (py_lower s)))
      \<or> (py_in ''\"SELECT'' s \<and> py_in ''+'' s))"

definition xss_predicate :: "string \<Rightarrow> bool" where
  "xss_predicate s =
     ((py_in ''@GetMapping'' s \<and> py_in ''return \"<'' s) \<or> (py_in ''<div>'' s \<and> py_in ''+'' s))"

definition path_traversal_predicate :: "string \<Rightarrow> bool" where
  "path_traversal_predicate s =
     (((py_in ''File('' s \<or> py_in ''Paths.get'' s) \<and> py_in ''+'' s)
      \<or> (py_in ''uploads'' (py_lower s) \<and> py_in ''+'' s))"

definition xxe_predicate :: "string \<Rightarrow> bool" where
  "xxe_predicate s =
     ((py_in ''DocumentBuilderFactory'' s \<or> py_in ''parseXML'' s) \<and> \<not> py_in ''setFeature'' s)"

definition authentication_bypass_predicate :: "string \<Rightarrow> bool" where
  "authentication_bypass_predicate s =
     (py_in ''password.length()'' s \<or> py_in ''.equals(\"admin\")'' s
      \<or> (py_in ''.length() >'' s \<and> py_in ''password'' (py_lower s)))"

definition insecure_deserialization_predicate :: "string \<Rightarrow> bool" where
  "insecure_deserialization_predicate s =
     (py_in ''ObjectInputStream'' s \<and> py_in ''.readObject()'' s)"

definition secure_state_predicate :: "string \<Rightarrow> bool" where
  "secure_state_predicate s =
     ((py_in ''BCryptPasswordEncoder'' s \<or> py_in ''encoder.encode'' s) \<and> py_in ''@Valid'' s)"

definition vulnerability_rules :: "((string \<Rightarrow> bool) \<times> vulnerability_verdict) list" where
  "vulnerability_rules =
     [(sql_injection_predicate,
         \<lparr>vulnerability = ''sql_injection'', severity = ''HIGH'', vuln_confidence = 92/100,
          description = ''SQL Injection vulnerability detected - unsafe string concatenation in SQL query'',
          vuln_references = []\<rparr>),
      (xss_predicate,
         \<lparr>vulnerability = ''xss'', severity = ''HIGH'', vuln_confidence = 90/100,
          description = ''XSS vulnerability detected - unescaped HTML output'',
          vuln_references = []\<rparr>),
      (path_traversal_predicate,
         \<lparr>vulnerability = ''path_traversal'', severity = ''HIGH'', vuln_confidence = 88/100,
          description = ''Path Traversal vulnerability detected - unsafe file path handling'',
          vuln_references = []\<rparr>),
      (xxe_predicate,
         \<lparr>vulnerability = ''xxe'', severity = ''MEDIUM'', vuln_confidence = 85/100,
          description = ''XXE vulnerability detected - unprotected XML parsing'',
          vuln_references = []\<rparr>),
      (authentication_bypass_predicate,
         \<lparr>vulnerability = ''authentication_bypass'', severity = ''CRITICAL'', vuln_confidence = 87/100,
          description = ''Authentication Bypass vulnerability detected - weak authentication logic'',
          vuln_references = []\<rparr>),
      (insecure_deserialization_predicate,
         \<lparr>vulnerability = ''insecure_deserialization'', severity = ''CRITICAL'', vuln_confidence = 89/100,
          description = ''Insecure Deserialization vulnerability detected - unsafe object deserialization'',
          vuln_references = []\<rparr>),
      (secure_state_predicate,
         \<lparr>vulnerability = ''none'', severity = ''LOW'', vuln_confidence = 95/100,
          description = ''Secure implementation detected - proper password hashing and validation'',
          vuln_references = []\<rparr>)]"

definition no_vulnerability :: vulnerability_verdict where
  "no_vulnerability =
     \<lparr>vulnerability = ''none'', severity = ''LOW'', vuln_confidence = 50/100,
      description = ''No obvious vulnerabilities detected'', vuln_references = []\<rparr>"

text \<open>The cohesion cascade as the specification lists it.\<close>

definition cohesion_cascade :: "((string \<Rightarrow> bool) \<times> real) list" where
  "cohesion_cascade =
     [(is_singleton, 92/100),
      (is_factory, 85/100),
      (is_builder, 88/100),
      (is_prototype, 82/100),
      (is_abstract_factory, 80/100),
      (\<lambda>s. is_adapter s \<or> is_decorator s \<or> is_proxy s, 78/100),
      (\<lambda>s. is_composite s \<or> is_facade s \<or> is_bridge s, 75/100),
      (is_flyweight, 73/100),
      (\<lambda>s. is_strategy s \<or> is_observer s \<or> is_command s, 77/100),
      (is_service_layer, 75/100),
      (\<lambda>s. is_spring_mvc s \<or> is_restful_api s, 70/100),
      (\<lambda>s. is_exception_handling s \<or> is_spring_error s, 80/100),
      (is_reactive, 76/100)]"

text \<open>The quality score as the specification states it: the weighted sum, rounded.\<close>

definition metric :: "series \<Rightarrow> string \<Rightarrow> real" where
  "metric m k = (case map_of m k of Some v \<Rightarrow> v | None \<Rightarrow> 0)"

definition weighted_quality :: "series \<Rightarrow> real" where
  "weighted_quality m =
     (1 - min (metric m ''code_duplication'') 1) * 25
     + metric m ''test_coverage'' * 25
     + min (metric m ''comment_ratio'' / (3/10)) 1 * 25
     + metric m ''cohesion'' * 25"

definition rounded_quality_score :: "series \<Rightarrow> int" where
  "rounded_quality_score m = py_round (weighted_quality m)"

text \<open>The cyclomatic complexity as the specification states it, before the clamp.\<close>

definition cyclomatic_formula :: "string \<Rightarrow> int" where
  "cyclomatic_formula s =
     1 + int (num_if s) + int (num_for s) + int (num_while s) + int (num_switch s)
     + (if num_switch s > 0 then int (py_count ''case '' s) - 1 else 0)
     + (if py_in ''try'' s \<and> py_in ''catch'' s then int (py_count ''catch'' s) else 0)"

text \<open>The severities of the vulnerability list that a verdict is transformed into.\<close>

definition verdict_severities :: "vulnerability_verdict \<Rightarrow> pyval list" where
  "verdict_severities v = (if vulnerability v \<noteq> ''none'' then [Str (severity v)] else [])"

text \<open>
  The line test of the specification: the line contains the keyword followed by a space
  or by an opening parenthesis.
\<close>

definition keyword_line :: "string \<Rightarrow> string \<Rightarrow> bool" where
  "keyword_line kw l = (py_in (kw @ '' '') l \<or> py_in (kw @ ''('') l)"

definition keyword_line_count :: "string \<Rightarrow> string \<Rightarrow> nat" where
  "keyword_line_count kw s = length (filter (keyword_line kw) (py_split_nl s))"

text \<open>The singleton shape: the three flags of the singleton rule.\<close>

definition singleton_shaped :: "string \<Rightarrow> bool" where
  "singleton_shaped s =
     ((py_in ''private '' s \<and> py_in ''()'' s)
      \<and> ((py_in ''static'' s \<and> py_in ''instance'' (py_lower s)) \<or> py_in ''private static'' s)
      \<and> (py_in ''getInstance'' s \<or> py_in ''instance()'' s))"

text \<open>The sample class of the self-test at the end of direct\_detection.py.\<close>

definition test_code :: string where
  "test_code =
     ''public class Database {'' @ [CHR 0x0A]
     @ ''    private static Database instance;'' @ [CHR 0x0A]
     @ ''    private Database() {}'' @ [CHR 0x0A]
     @ ''    '' @ [CHR 0x0A]
     @ ''    public static Database getInstance() {'' @ [CHR 0x0A]
     @ ''        if (instance == null) {'' @ [CHR 0x0A]
     @ ''            instance = new Database();'' @ [CHR 0x0A]
     @ ''        }'' @ [CHR 0x0A]
     @ ''        return instance;'' @ [CHR 0x0A]
     @ ''    }'' @ [CHR 0x0A]
     @ ''}''"

section \<open>Properties\<close>

subsection \<open>Auxiliary facts\<close>

lemma py_in_sublist: "py_in sub s = sublist sub s"
  by (induction s) (auto simp: sublist_Cons_right)

lemma metrics_code_duplication:
  "map_of (extract_code_metrics s) ''code_duplication'' = Some 0"
  by (simp add: extract_code_metrics_def Let_def)

lemma metrics_test_coverage:
  "map_of (extract_code_metrics s) ''test_coverage'' = Some (1/2)"
  by (simp add: extract_code_metrics_def Let_def)

lemma metrics_comment_ratio:
  "map_of (extract_code_metrics s) ''comment_ratio'' =
     Some (real (length (filter (\<lambda>l. py_in ''//'' l \<or> py_in ''/*'' l) (py_split_nl s)))
           / real (max 1 (length (py_split_nl s))))"
  by (simp add: extract_code_metrics_def Let_def)

lemma metrics_cohesion:
  "map_of (extract_code_metrics s) ''cohesion'' = Some (first_match cohesion_cascade (60/100) s)"
  by (simp add: extract_code_metrics_def Let_def cohesion_cascade_def)

lemma metrics_cyclomatic:
  "map_of (extract_code_metrics s) ''cyclomatic_complexity'' =
     Some (real_of_int (min 50 (cyclomatic_formula s)))"
  by (simp add: extract_code_metrics_def Let_def cyclomatic_formula_def)

lemma weighted_quality_eq:
  "weighted_quality (extract_code_metrics s) =
     75/2
     + min (real (length (filter (\<lambda>l. py_in ''//'' l \<or> py_in ''/*'' l) (py_split_nl s)))
            / real (max 1 (length (py_split_nl s))) / (3/10)) 1 * 25
     + first_match cohesion_cascade (60/100) s * 25"
  by (simp add: weighted_quality_def metric_def metrics_code_duplication metrics_test_coverage
      metrics_comment_ratio metrics_cohesion)

lemma cohesion_bounds:
  "60/100 \<le> first_match cohesion_cascade (60/100) s \<and> first_match cohesion_cascade (60/100) s \<le> 92/100"
  by (simp add: cohesion_cascade_def)

lemma comment_part_bounds:
  "0 \<le> min (real n / real (max 1 m) / (3/10)) 1 * 25 \<and> min (real n / real (max 1 m) / (3/10)) 1 * 25 \<le> (25::real)"
  by (simp add: min_def)

lemma weighted_quality_bounds:
  "105/2 \<le> weighted_quality (extract_code_metrics s) \<and> weighted_quality (extract_code_metrics s) \<le> 171/2"
proof -
  let ?c = "first_match cohesion_cascade (60/100) s"
  let ?n = "length (filter (\<lambda>l. py_in ''//'' l \<or> py_in ''/*'' l) (py_split_nl s))"
  let ?m = "length (py_split_nl s)"
  let ?k = "min (real ?n / real (max 1 ?m) / (3/10)) 1 * 25"
  have c: "60/100 \<le> ?c \<and> ?c \<le> 92/100" by (rule cohesion_bounds)
  have k: "0 \<le> ?k \<and> ?k \<le> 25" by (rule comment_part_bounds)
  have e: "weighted_quality (extract_code_metrics s) = 75/2 + ?k + ?c * 25"
    by (rule weighted_quality_eq)
  from c k show ?thesis unfolding e by linarith
qed

lemma quality_score_value:
  "calculate_quality_score (extract_code_metrics s) = Some \<lfloor>weighted_quality (extract_code_metrics s)\<rfloor>"
proof -
  have nn: "0 \<le> weighted_quality (extract_code_metrics s)"
    using weighted_quality_bounds [of s] by linarith
  have "calculate_quality_score (extract_code_metrics s)
          = Some (py_int (weighted_quality (extract_code_metrics s)))"
    by (simp add: calculate_quality_score_def weighted_quality_def metric_def
        metrics_code_duplication metrics_test_coverage metrics_comment_ratio metrics_cohesion)
  with nn show ?thesis by (simp add: py_int_def)
qed

lemma cyclomatic_formula_pos: "1 \<le> cyclomatic_formula s"
  by (simp add: cyclomatic_formula_def)

lemma complexity_score_value:
  "calculate_complexity_score (extract_code_metrics s) = Some (min 50 (cyclomatic_formula s))"
  using cyclomatic_formula_pos [of s]
  by (simp add: calculate_complexity_score_def metrics_cyclomatic py_int_def)

lemma severities_transform:
  "severities (transform_vulnerabilities v) = Some (verdict_severities v)"
  by (simp add: severities_def transform_vulnerabilities_def verdict_severities_def Let_def)

lemma analyze_code_nonblank:
  "str_truthy (py_strip s) \<Longrightarrow>
   analyze_code (Some s) =
     Inr \<lparr>complexityScore = min 50 (cyclomatic_formula s),
          detectedConcepts =
            transform_patterns s (count_lines_of_code s) (detect_patterns_directly s),
          linesOfCode = count_lines_of_code s,
          qualityScore = \<lfloor>weighted_quality (extract_code_metrics s)\<rfloor>,
          recommendations =
            generate_recommendations (verdict_severities (detect_vulnerabilities_directly s))
              (min 50 (cyclomatic_formula s)) \<lfloor>weighted_quality (extract_code_metrics s)\<rfloor>
              (extract_code_metrics s),
          overallRisk = determine_overall_risk (verdict_severities (detect_vulnerabilities_directly s)),
          vulnerabilities = transform_vulnerabilities (detect_vulnerabilities_directly s)\<rparr>"
  by (simp add: analyze_code_def Let_def quality_score_value complexity_score_value
      severities_transform)

lemma analyze_code_InrD:
  "analyze_code rc = Inr r \<Longrightarrow> \<exists>s. rc = Some s \<and> str_truthy (py_strip s)"
  by (cases rc) (auto simp: analyze_code_def split: if_splits)

lemma detect_is_first_match:
  "detect_vulnerabilities_directly s = first_match vulnerability_rules no_vulnerability s"
  unfolding vulnerability_rules_def no_vulnerability_def first_match.simps
  by (simp only: detect_vulnerabilities_directly_def
      sql_injection_predicate_def xss_predicate_def path_traversal_predicate_def
      xxe_predicate_def authentication_bypass_predicate_def
      insecure_deserialization_predicate_def secure_state_predicate_def)

lemma detect_sql_injection:
  "sql_injection_predicate s \<Longrightarrow>
   detect_vulnerabilities_directly s =
     \<lparr>vulnerability = ''sql_injection'', severity = ''HIGH'', vuln_confidence = 92/100,
      description = ''SQL Injection vulnerability detected - unsafe string concatenation in SQL query'',
      vuln_references = []\<rparr>"
  unfolding detect_is_first_match vulnerability_rules_def first_match.simps
  by (simp only: if_True)

lemma overall_risk_cases:
  "determine_overall_risk sevs =
     (if Str ''CRITICAL'' \<in> set sevs then ''HIGH''
      else if Str ''HIGH'' \<in> set sevs then ''MEDIUM'' else ''LOW'')"
  by (auto simp: determine_overall_risk_def list_ex_iff)

lemma vuln_severity_iff:
  "(\<exists>v\<in>set (transform_vulnerabilities d). map_of v ''severity'' = Some (Str x))
     \<longleftrightarrow> Str x \<in> set (verdict_severities d)"
  by (auto simp: transform_vulnerabilities_def verdict_severities_def Let_def)

lemma recommendations_coverage:
  "''Increase test coverage to at least 70%'' \<in> set (generate_recommendations sevs c q (extract_code_metrics s))
   \<and> generate_recommendations sevs c q (extract_code_metrics s) \<noteq> []
   \<and> ''Code follows good practices. Continue maintaining quality standards.''
        \<notin> set (generate_recommendations sevs c q (extract_code_metrics s))"
  by (simp add: generate_recommendations_def Let_def metrics_test_coverage)

lemma nonblank_Strategy: "str_truthy (py_strip ''Strategy'')"
  by code_simp

lemma weighted_Strategy: "weighted_quality (extract_code_metrics ''Strategy'') = 227/4"
  by code_simp

lemma cyclomatic_example: "cyclomatic_formula ''switch(x) { case 1: case 2: }'' = 3"
  by code_simp

lemma cohesion_example: "first_match cohesion_cascade (60/100) ''Strategy'' = 77/100"
  by code_simp

lemma nonblank_deser: "str_truthy (py_strip ''ObjectInputStream.readObject()'')"
  by code_simp

lemma severities_deser:
  "verdict_severities (detect_vulnerabilities_directly ''ObjectInputStream.readObject()'') = [Str ''CRITICAL'']"
  by code_simp

lemma mem_dropWhile: "x \<in> set xs \<Longrightarrow> \<not> P x \<Longrightarrow> x \<in> set (dropWhile P xs)"
  by (induction xs) auto

lemma strip_nonblank:
  assumes "c \<in> set s" "\<not> py_isspace c"
  shows "str_truthy (py_strip s)"
proof -
  from assms have "c \<in> set (dropWhile py_isspace s)" by (rule mem_dropWhile)
  then have "c \<in> set (rev (dropWhile py_isspace s))" by simp
  then have "c \<in> set (dropWhile py_isspace (rev (dropWhile py_isspace s)))"
    using assms(2) by (rule mem_dropWhile)
  then have "c \<in> set (py_strip s)" by (simp add: py_strip_def)
  then show ?thesis by (auto simp: str_truthy_def)
qed

lemma py_in_set: "py_in sub s \<Longrightarrow> set sub \<subseteq> set s"
  unfolding py_in_sublist by (rule set_mono_sublist)

lemma py_in_trans: "py_in a b \<Longrightarrow> py_in b c \<Longrightarrow> py_in a c"
  unfolding py_in_sublist by (rule sublist_order.order_trans)

lemma detect_deserialization:
  assumes "insecure_deserialization_predicate s"
    "\<not> sql_injection_predicate s" "\<not> xss_predicate s" "\<not> path_traversal_predicate s"
    "\<not> xxe_predicate s" "\<not> authentication_bypass_predicate s"
  shows "detect_vulnerabilities_directly s =
     \<lparr>vulnerability = ''insecure_deserialization'', severity = ''CRITICAL'', vuln_confidence = 89/100,
      description = ''Insecure Deserialization vulnerability detected - unsafe object deserialization'',
      vuln_references = []\<rparr>"
  unfolding detect_is_first_match vulnerability_rules_def first_match.simps
  using assms by (simp only: if_True if_False)

lemma detect_none:
  assumes "\<not> sql_injection_predicate s" "\<not> xss_predicate s" "\<not> path_traversal_predicate s"
    "\<not> xxe_predicate s" "\<not> authentication_bypass_predicate s"
    "\<not> insecure_deserialization_predicate s"
  shows "vulnerability (detect_vulnerabilities_directly s) = ''none''"
proof (cases "secure_state_predicate s")
  case True
  with assms show ?thesis
    unfolding detect_is_first_match vulnerability_rules_def first_match.simps no_vulnerability_def
    by (simp only: if_True if_False) simp
next
  case False
  with assms show ?thesis
    unfolding detect_is_first_match vulnerability_rules_def first_match.simps no_vulnerability_def
    by (simp only: if_True if_False) simp
qed

lemma deser_hyps:
  "py_in ''ObjectInputStream'' ''ObjectInputStream.readObject()''"
  "py_in ''.readObject()'' ''ObjectInputStream.readObject()''"
  "\<not> sql_injection_predicate ''ObjectInputStream.readObject()''"
  "\<not> xss_predicate ''ObjectInputStream.readObject()''"
  "\<not> path_traversal_predicate ''ObjectInputStream.readObject()''"
  "\<not> xxe_predicate ''ObjectInputStream.readObject()''"
  "\<not> authentication_bypass_predicate ''ObjectInputStream.readObject()''"
  by code_simp+

lemma length_filter_mono:
  "(\<And>x. P x \<Longrightarrow> Q x) \<Longrightarrow> length (filter P xs) \<le> length (filter Q xs)"
  by (induction xs) auto

lemma singleton_rule_fires:
  "singleton_shaped s \<Longrightarrow>
   rule_singleton_design_pattern s =
     [\<lparr>pattern = ''singleton_design_pattern'', confidence = 95/100,
       theory_name = ''Singleton Design Pattern'', references = []\<rparr>]"
  by (simp add: singleton_shaped_def rule_singleton_design_pattern_def Let_def)

lemma singleton_detected:
  "singleton_shaped s \<Longrightarrow>
   \<lparr>pattern = ''singleton_design_pattern'', confidence = 95/100,
    theory_name = ''Singleton Design Pattern'', references = []\<rparr>
     \<in> set (detect_patterns_directly s)"
  unfolding detect_patterns_directly_def by (simp add: singleton_rule_fires)

lemma concept_keys:
  "map fst (transform_pattern s n p) =
     [''name'', ''category'', ''description'', ''theory'', ''referenceLinks'', ''matchedWords'',
      ''linesOfCode'']"
  by (simp add: transform_pattern_def Let_def)

lemma concept_no_confidence: "map_of (transform_pattern s n p) ''confidence'' = None"
  by (simp add: transform_pattern_def Let_def)

lemma singleton_display_name:
  "format_pattern_name_for_display ''singleton_design_pattern'' = ''Singleton Design Pattern''"
  by code_simp

lemma test_code_shaped: "singleton_shaped test_code"
  by code_simp

lemma test_code_hyps:
  "\<not> sql_injection_predicate test_code"
  "\<not> xss_predicate test_code"
  "\<not> path_traversal_predicate test_code"
  "\<not> xxe_predicate test_code"
  "\<not> authentication_bypass_predicate test_code"
  "\<not> insecure_deserialization_predicate test_code"
  by code_simp+

lemma singleton_concept:
  "map_of (transform_pattern s n
             \<lparr>pattern = ''singleton_design_pattern'', confidence = 95/100,
              theory_name = ''Singleton Design Pattern'', references = []\<rparr>) ''name''
     = Some (Str ''Singleton Design Pattern'')"
  by (simp add: transform_pattern_def Let_def singleton_display_name)

lemma concepts_have_no_confidence:
  "list_all (\<lambda>c. map fst c = [''name'', ''category'', ''description'', ''theory'',
                               ''referenceLinks'', ''matchedWords'', ''linesOfCode'']
                   \<and> map_of c ''confidence'' = None)
     (transform_patterns s n ps)"
  unfolding transform_patterns_def list.pred_map comp_def concept_keys concept_no_confidence
  by (simp add: list_all_iff)

subsection \<open>Vulnerability detection is a first-match decision list\<close>

text \<open>
  C1.  \<open>detect_vulnerabilities_directly\<close> is the ordered decision list of its seven rules
  with return on the first match, so every input takes exactly one branch.  In
  particular, an input that satisfies both the SQL-injection predicate (\<open>+\<close> or
  \<open>concat\<close>, and \<open>SELECT\<close> or \<open>select\<close>) and the XXE predicate is reported as
  \<open>sql_injection\<close> with severity \<open>HIGH\<close>, not as \<open>xxe\<close>.
\<close>

theorem detect_vulnerabilities_first_match:
  "detect_vulnerabilities_directly s = first_match vulnerability_rules no_vulnerability s
   \<and> ((py_in ''+'' s \<or> py_in ''concat'' (py_lower s))
        \<and> (py_in ''SELECT'' s \<or> py_in ''select'' (py_lower s))
        \<and> xxe_predicate s
      \<longrightarrow> vulnerability (detect_vulnerabilities_directly s) = ''sql_injection''
          \<and> severity (detect_vulnerabilities_directly s) = ''HIGH''
          \<and> vulnerability (detect_vulnerabilities_directly s) \<noteq> ''xxe'')"
proof (intro conjI impI)
  show "detect_vulnerabilities_directly s = first_match vulnerability_rules no_vulnerability s"
    by (rule detect_is_first_match)
next
  assume h: "(py_in ''+'' s \<or> py_in ''concat'' (py_lower s))
        \<and> (py_in ''SELECT'' s \<or> py_in ''select'' (py_lower s))
        \<and> xxe_predicate s"
  then have sql: "sql_injection_predicate s"
    unfolding sql_injection_predicate_def by blast
  show "vulnerability (detect_vulnerabilities_directly s) = ''sql_injection''"
    by (simp add: detect_sql_injection [OF sql])
  show "severity (detect_vulnerabilities_directly s) = ''HIGH''"
    by (simp add: detect_sql_injection [OF sql])
  show "vulnerability (detect_vulnerabilities_directly s) \<noteq> ''xxe''"
    by (simp add: detect_sql_injection [OF sql])
qed

theorem detect_vulnerabilities_first_match_witness:
  "(py_in ''+'' ''SELECT + parseXML'' \<or> py_in ''concat'' (py_lower ''SELECT + parseXML''))
   \<and> (py_in ''SELECT'' ''SELECT + parseXML'' \<or> py_in ''select'' (py_lower ''SELECT + parseXML''))
   \<and> xxe_predicate ''SELECT + parseXML''
   \<and> vulnerability (detect_vulnerabilities_directly ''SELECT + parseXML'') = ''sql_injection''
   \<and> severity (detect_vulnerabilities_directly ''SELECT + parseXML'') = ''HIGH''"
proof -
  have h: "(py_in ''+'' ''SELECT + parseXML'' \<or> py_in ''concat'' (py_lower ''SELECT + parseXML''))
   \<and> (py_in ''SELECT'' ''SELECT + parseXML'' \<or> py_in ''select'' (py_lower ''SELECT + parseXML''))
   \<and> xxe_predicate ''SELECT + parseXML''"
    by (simp add: xxe_predicate_def)
  from detect_vulnerabilities_first_match [of "''SELECT + parseXML''", THEN conjunct2] h
  show ?thesis by blast
qed

subsection \<open>The overall risk\<close>

text \<open>
  C2.  In every report, \<open>overallRisk\<close> is \<open>HIGH\<close> if and only if some reported
  vulnerability has severity \<open>CRITICAL\<close>, it is \<open>MEDIUM\<close> if and only if none is
  \<open>CRITICAL\<close> and some is \<open>HIGH\<close>, and it is \<open>LOW\<close> otherwise, which includes a
  single \<open>MEDIUM\<close> finding and the empty list.
\<close>

theorem overall_risk_by_severity:
  assumes "analyze_code rc = Inr r"
  shows "(overallRisk r = ''HIGH'' \<longleftrightarrow>
            (\<exists>v\<in>set (vulnerabilities r). map_of v ''severity'' = Some (Str ''CRITICAL'')))
       \<and> (overallRisk r = ''MEDIUM'' \<longleftrightarrow>
            \<not> (\<exists>v\<in>set (vulnerabilities r). map_of v ''severity'' = Some (Str ''CRITICAL''))
            \<and> (\<exists>v\<in>set (vulnerabilities r). map_of v ''severity'' = Some (Str ''HIGH'')))
       \<and> (overallRisk r = ''LOW'' \<longleftrightarrow>
            \<not> (\<exists>v\<in>set (vulnerabilities r). map_of v ''severity'' = Some (Str ''CRITICAL''))
            \<and> \<not> (\<exists>v\<in>set (vulnerabilities r). map_of v ''severity'' = Some (Str ''HIGH'')))"
proof -
  from assms obtain s where s: "rc = Some s" "str_truthy (py_strip s)"
    using analyze_code_InrD by blast
  from assms s have r: "overallRisk r = determine_overall_risk (verdict_severities (detect_vulnerabilities_directly s))"
    "vulnerabilities r = transform_vulnerabilities (detect_vulnerabilities_directly s)"
    by (auto simp: analyze_code_nonblank)
  show ?thesis
    unfolding r vuln_severity_iff overall_risk_cases by simp
qed

theorem overall_risk_by_severity_witness:
  "\<exists>r. analyze_code (Some ''ObjectInputStream.readObject()'') = Inr r
       \<and> (\<exists>v\<in>set (vulnerabilities r). map_of v ''severity'' = Some (Str ''CRITICAL''))
       \<and> overallRisk r = ''HIGH''"
proof -
  note a = analyze_code_nonblank [OF nonblank_deser]
  have v: "\<exists>v\<in>set (transform_vulnerabilities (detect_vulnerabilities_directly ''ObjectInputStream.readObject()'')).
              map_of v ''severity'' = Some (Str ''CRITICAL'')"
    unfolding vuln_severity_iff severities_deser by simp
  from overall_risk_by_severity [OF a] v show ?thesis
    unfolding a by simp
qed

subsection \<open>Cyclomatic complexity\<close>

text \<open>
  C3.  The metric \<open>cyclomatic_complexity\<close> is one plus the line counts of \<open>if\<close>,
  \<open>for\<close>, \<open>while\<close> and \<open>switch\<close>, plus the number of \<open>case\<close> occurrences minus one
  when a \<open>switch\<close> line is present, plus the number of \<open>catch\<close> occurrences when both
  \<open>try\<close> and \<open>catch\<close> occur, clamped to at most 50.
\<close>

theorem cyclomatic_complexity_formula:
  "map_of (extract_code_metrics s) ''cyclomatic_complexity'' =
     Some (real_of_int (min 50 (cyclomatic_formula s)))"
  by (rule metrics_cyclomatic)

theorem cyclomatic_complexity_formula_witness:
  "map_of (extract_code_metrics ''switch(x) { case 1: case 2: }'') ''cyclomatic_complexity'' = Some 3"
  using cyclomatic_complexity_formula [of "''switch(x) { case 1: case 2: }''"]
  by (simp add: cyclomatic_example)

subsection \<open>Cohesion\<close>

text \<open>
  C4.  The metric \<open>cohesion\<close> is chosen by the first matching branch of the cascade
  singleton, factory, builder, prototype, abstract factory, adapter or decorator or
  proxy, composite or facade or bridge, flyweight, strategy or observer or command,
  service layer, Spring MVC or RESTful API, exception handling or Spring error,
  reactive, and is 0.60 when no branch matches.
\<close>

theorem cohesion_first_match:
  "map_of (extract_code_metrics s) ''cohesion'' = Some (first_match cohesion_cascade (60/100) s)"
  by (rule metrics_cohesion)

theorem cohesion_first_match_witness:
  "map_of (extract_code_metrics ''Strategy'') ''cohesion'' = Some (77/100)"
  using cohesion_first_match [of "''Strategy''"]
  unfolding cohesion_example .

subsection \<open>The quality score\<close>

text \<open>
  C5.  As amended: in every report, \<open>qualityScore\<close> is the weighted sum
  \<open>(1 - min(duplication, 1)) * 25 + testCoverage * 25 + min(commentRatio / 0.3, 1) * 25
  + cohesion * 25\<close> truncated to an integer, that is rounded down, not rounded to the
  nearest integer.
\<close>

theorem quality_score_truncates:
  assumes "analyze_code rc = Inr r"
  shows "\<exists>s. rc = Some s \<and> qualityScore r = \<lfloor>weighted_quality (extract_code_metrics s)\<rfloor>
          \<and> real_of_int (qualityScore r) \<le> weighted_quality (extract_code_metrics s)
          \<and> weighted_quality (extract_code_metrics s) < real_of_int (qualityScore r) + 1"
proof -
  from assms obtain s where s: "rc = Some s" "str_truthy (py_strip s)"
    using analyze_code_InrD by blast
  from assms s have q: "qualityScore r = \<lfloor>weighted_quality (extract_code_metrics s)\<rfloor>"
    by (auto simp: analyze_code_nonblank)
  show ?thesis using s(1) q by (intro exI [of _ s]) (simp; linarith)
qed

theorem quality_score_truncates_witness:
  "\<exists>r. analyze_code (Some ''Strategy'') = Inr r \<and> qualityScore r = 56"
proof -
  note a = analyze_code_nonblank [OF nonblank_Strategy]
  from quality_score_truncates [OF a] show ?thesis
    by (auto simp: a weighted_Strategy)
qed

text \<open>
  The rounded score of the specification differs from the code's score on the input
  \<open>Strategy\<close>: the weighted sum is 56.75, the code reports 56, rounding gives 57.
\<close>

theorem quality_score_not_rounded:
  "case analyze_code (Some ''Strategy'') of
     Inr r \<Rightarrow> qualityScore r = 56 \<and> rounded_quality_score (extract_code_metrics ''Strategy'') = 57
   | Inl e \<Rightarrow> False"
  by (simp add: analyze_code_nonblank [OF nonblank_Strategy] weighted_Strategy
      rounded_quality_score_def py_round_def)

subsection \<open>Score ranges\<close>

text \<open>
  C6.  For every input string the quality score and the complexity score computed from it
  lie between 0 and 100, and so do the two scores of every report.
\<close>

theorem scores_in_range:
  "(\<exists>q c. calculate_quality_score (extract_code_metrics s) = Some q
          \<and> calculate_complexity_score (extract_code_metrics s) = Some c
          \<and> 0 \<le> q \<and> q \<le> 100 \<and> 0 \<le> c \<and> c \<le> 100)
   \<and> (analyze_code rc = Inr r \<longrightarrow>
        0 \<le> qualityScore r \<and> qualityScore r \<le> 100
        \<and> 0 \<le> complexityScore r \<and> complexityScore r \<le> 100)"
proof -
  have range: "0 \<le> \<lfloor>weighted_quality (extract_code_metrics t)\<rfloor>
      \<and> \<lfloor>weighted_quality (extract_code_metrics t)\<rfloor> \<le> 100
      \<and> 0 \<le> min 50 (cyclomatic_formula t) \<and> min 50 (cyclomatic_formula t) \<le> 100" for t
  proof -
    have b: "105/2 \<le> weighted_quality (extract_code_metrics t)"
        "weighted_quality (extract_code_metrics t) \<le> 171/2"
      using weighted_quality_bounds [of t] by blast+
    have "0 \<le> \<lfloor>weighted_quality (extract_code_metrics t)\<rfloor>"
      using b(1) by simp
    moreover have "\<lfloor>weighted_quality (extract_code_metrics t)\<rfloor> \<le> 100"
      using b(2) by (simp add: floor_le_iff)
    moreover have "0 \<le> min 50 (cyclomatic_formula t)" "min 50 (cyclomatic_formula t) \<le> 100"
      using cyclomatic_formula_pos [of t] by simp_all
    ultimately show ?thesis by simp
  qed
  have first: "\<exists>q c. calculate_quality_score (extract_code_metrics s) = Some q
          \<and> calculate_complexity_score (extract_code_metrics s) = Some c
          \<and> 0 \<le> q \<and> q \<le> 100 \<and> 0 \<le> c \<and> c \<le> 100"
    unfolding quality_score_value complexity_score_value using range [of s] by simp
  have second: "0 \<le> qualityScore r \<and> qualityScore r \<le> 100
        \<and> 0 \<le> complexityScore r \<and> complexityScore r \<le> 100"
    if a: "analyze_code rc = Inr r"
  proof -
    from a obtain t where t: "rc = Some t" "str_truthy (py_strip t)"
      using analyze_code_InrD by blast
    from a t have q: "qualityScore r = \<lfloor>weighted_quality (extract_code_metrics t)\<rfloor>"
      and c: "complexityScore r = min 50 (cyclomatic_formula t)"
      by (auto simp: analyze_code_nonblank)
    show ?thesis unfolding q c by (rule range)
  qed
  from first second show ?thesis by blast
qed

theorem scores_in_range_witness:
  "\<exists>r. analyze_code (Some ''Strategy'') = Inr r
       \<and> 0 \<le> qualityScore r \<and> qualityScore r \<le> 100
       \<and> 0 \<le> complexityScore r \<and> complexityScore r \<le> 100"
proof -
  note a = analyze_code_nonblank [OF nonblank_Strategy]
  from scores_in_range [THEN conjunct2, rule_format, OF a] show ?thesis
    unfolding a by blast
qed

subsection \<open>Line-based keyword counts\<close>

text \<open>
  C7.  As amended: a physical line counts as an \<open>if\<close> line if and only if it contains
  \<open>if\<close> between two spaces or \<open>if(\<close>, as a \<open>for\<close> line if and only if it contains
  \<open>for\<close> between two spaces or \<open>for(\<close>, as a \<open>while\<close> line if and only if it contains
  \<open>while\<close> after a space and before a space or \<open>(\<close>, and as a \<open>switch\<close> line if and
  only if it contains \<open>switch\<close>.  Every counted \<open>if\<close>, \<open>for\<close> or \<open>while\<close> line holds
  the keyword followed by a space or \<open>(\<close>, and every line that holds \<open>switch\<close> followed
  by a space or \<open>(\<close> is counted.
\<close>

theorem line_counts_per_keyword:
  "num_if s = length (filter (\<lambda>l. py_in '' if '' l \<or> py_in ''if('' l) (py_split_nl s))
   \<and> num_for s = length (filter (\<lambda>l. py_in '' for '' l \<or> py_in ''for('' l) (py_split_nl s))
   \<and> num_while s = length (filter (\<lambda>l. py_in '' while '' l \<or> py_in '' while('' l) (py_split_nl s))
   \<and> num_switch s = length (filter (\<lambda>l. py_in ''switch'' l) (py_split_nl s))
   \<and> num_if s \<le> keyword_line_count ''if'' s
   \<and> num_for s \<le> keyword_line_count ''for'' s
   \<and> num_while s \<le> keyword_line_count ''while'' s
   \<and> keyword_line_count ''switch'' s \<le> num_switch s"
proof -
  have i1: "py_in ''if('' '' if(''" and f1: "py_in ''for('' '' for(''" by simp_all
  have i2: "py_in ''if '' '' if ''" and f2: "py_in ''for '' '' for ''"
    and w2: "py_in ''while '' '' while ''" and w1: "py_in ''while('' '' while(''"
    and s1: "py_in ''switch'' ''switch ''" and s2: "py_in ''switch'' ''switch(''" by simp_all
  have pif: "(py_in '' if '' l \<or> py_in '' if('' l \<or> py_in ''if('' l)
               = (py_in '' if '' l \<or> py_in ''if('' l)" for l
    using py_in_trans [OF i1] by blast
  have pfor: "(py_in '' for '' l \<or> py_in '' for('' l \<or> py_in ''for('' l)
               = (py_in '' for '' l \<or> py_in ''for('' l)" for l
    using py_in_trans [OF f1] by blast
  have a: "num_if s = length (filter (\<lambda>l. py_in '' if '' l \<or> py_in ''if('' l) (py_split_nl s))"
    by (simp add: num_if_def pif)
  have b: "num_for s = length (filter (\<lambda>l. py_in '' for '' l \<or> py_in ''for('' l) (py_split_nl s))"
    by (simp add: num_for_def pfor)
  have c: "num_while s = length (filter (\<lambda>l. py_in '' while '' l \<or> py_in '' while('' l) (py_split_nl s))"
    by (simp add: num_while_def)
  have d: "num_switch s = length (filter (\<lambda>l. py_in ''switch'' l) (py_split_nl s))"
    by (simp add: num_switch_def)
  have e: "num_if s \<le> keyword_line_count ''if'' s"
    unfolding a keyword_line_count_def
    by (rule length_filter_mono) (use py_in_trans [OF i2] in \<open>auto simp: keyword_line_def\<close>)
  have f: "num_for s \<le> keyword_line_count ''for'' s"
    unfolding b keyword_line_count_def
    by (rule length_filter_mono) (use py_in_trans [OF f2] in \<open>auto simp: keyword_line_def\<close>)
  have g: "num_while s \<le> keyword_line_count ''while'' s"
    unfolding c keyword_line_count_def
    by (rule length_filter_mono)
      (use py_in_trans [OF w2] py_in_trans [OF w1] in \<open>auto simp: keyword_line_def\<close>)
  have h: "keyword_line_count ''switch'' s \<le> num_switch s"
    unfolding d keyword_line_count_def
    by (rule length_filter_mono)
      (use py_in_trans [OF s1] py_in_trans [OF s2] in \<open>auto simp: keyword_line_def\<close>)
  from a b c d e f g h show ?thesis by blast
qed

theorem line_counts_per_keyword_witness:
  "num_if ''x; if(a) b;'' = 1 \<and> keyword_line_count ''if'' ''x; if(a) b;'' = 1"
proof -
  have "keyword_line_count ''if'' ''x; if(a) b;'' = 1" by code_simp
  moreover have "length (filter (\<lambda>l. py_in '' if '' l \<or> py_in ''if('' l) (py_split_nl ''x; if(a) b;'')) = 1"
    by code_simp
  ultimately show ?thesis
    using line_counts_per_keyword [of "''x; if(a) b;''"] by simp
qed

text \<open>
  The four tests are not the test of the specification: a line that starts with
  \<open>if (\<close> and a line with \<open>while(\<close> hold the keyword followed by a space or \<open>(\<close> and are
  not counted, and a line with the bare word \<open>switch\<close> is counted.
\<close>

theorem line_counts_differ:
  "keyword_line ''if'' ''if (x) {'' \<and> num_if ''if (x) {'' = 0
   \<and> keyword_line ''while'' ''while(x)'' \<and> num_while ''while(x)'' = 0
   \<and> \<not> keyword_line ''switch'' ''switch'' \<and> num_switch ''switch'' = 1"
  by code_simp

subsection \<open>The singleton scenario\<close>

text \<open>
  C8.  As amended: for a singleton-shaped input (it contains \<open>private\<close> followed by a
  space and \<open>()\<close>, a static instance indicator, and \<open>getInstance\<close> or \<open>instance()\<close>)
  that satisfies none of the vulnerability predicates, the pattern detector reports
  \<open>singleton_design_pattern\<close> with confidence 0.95, the report's \<open>detectedConcepts\<close>
  contains the concept built from it, named \<open>Singleton Design Pattern\<close>, no concept of
  the report carries a confidence, the vulnerabilities list is empty and \<open>overallRisk\<close>
  is \<open>LOW\<close>.
\<close>

theorem singleton_report:
  assumes "singleton_shaped s"
    and "\<not> sql_injection_predicate s" and "\<not> xss_predicate s"
    and "\<not> path_traversal_predicate s" and "\<not> xxe_predicate s"
    and "\<not> authentication_bypass_predicate s" and "\<not> insecure_deserialization_predicate s"
  shows "\<lparr>pattern = ''singleton_design_pattern'', confidence = 95/100,
          theory_name = ''Singleton Design Pattern'', references = []\<rparr>
           \<in> set (detect_patterns_directly s)
       \<and> (\<exists>r. analyze_code (Some s) = Inr r
              \<and> (\<exists>c\<in>set (detectedConcepts r).
                    map_of c ''name'' = Some (Str ''Singleton Design Pattern''))
              \<and> (\<forall>c\<in>set (detectedConcepts r). map_of c ''confidence'' = None)
              \<and> vulnerabilities r = [] \<and> overallRisk r = ''LOW'')"
proof -
  let ?m = "\<lparr>pattern = ''singleton_design_pattern'', confidence = 95/100,
          theory_name = ''Singleton Design Pattern'', references = []\<rparr>"
  let ?cs = "transform_patterns s (count_lines_of_code s) (detect_patterns_directly s)"
  have m: "?m \<in> set (detect_patterns_directly s)"
    using assms(1) by (rule singleton_detected)
  have "py_in ''private '' s" using assms(1) by (simp add: singleton_shaped_def)
  then have "set ''private '' \<subseteq> set s" by (rule py_in_set)
  then have "CHR ''p'' \<in> set s" by simp
  then have nb: "str_truthy (py_strip s)"
    by (rule strip_nonblank) (simp add: py_isspace_def)
  have none: "vulnerability (detect_vulnerabilities_directly s) = ''none''"
    using assms(2-7) by (rule detect_none)
  have "transform_pattern s (count_lines_of_code s) ?m \<in> set ?cs"
    unfolding transform_patterns_def set_map using m by (rule imageI)
  then have c: "\<exists>c\<in>set ?cs. map_of c ''name'' = Some (Str ''Singleton Design Pattern'')"
    using singleton_concept by blast
  have k: "\<forall>c\<in>set ?cs. map_of c ''confidence'' = None"
  proof
    fix c assume "c \<in> set ?cs"
    then obtain p where "c = transform_pattern s (count_lines_of_code s) p"
      unfolding transform_patterns_def set_map by (rule imageE)
    then show "map_of c ''confidence'' = None"
      by (simp only: concept_no_confidence)
  qed
  have v: "transform_vulnerabilities (detect_vulnerabilities_directly s) = []"
    using none by (simp add: transform_vulnerabilities_def Let_def)
  have o: "determine_overall_risk (verdict_severities (detect_vulnerabilities_directly s)) = ''LOW''"
    using none by (simp add: verdict_severities_def overall_risk_cases)
  have "detectedConcepts (projr (analyze_code (Some s))) = ?cs"
    "vulnerabilities (projr (analyze_code (Some s))) = []"
    "overallRisk (projr (analyze_code (Some s))) = ''LOW''"
    "analyze_code (Some s) = Inr (projr (analyze_code (Some s)))"
    unfolding analyze_code_nonblank [OF nb] using v o by simp_all
  with m c k show ?thesis by metis
qed

theorem singleton_report_witness:
  "\<exists>r. analyze_code (Some test_code) = Inr r
       \<and> (\<exists>c\<in>set (detectedConcepts r). map_of c ''name'' = Some (Str ''Singleton Design Pattern''))
       \<and> vulnerabilities r = [] \<and> overallRisk r = ''LOW''"
  using singleton_report [OF test_code_shaped test_code_hyps] by blast

text \<open>
  On the sample class of the module's self-test, which is singleton-shaped and free of
  vulnerability predicates, every entry of \<open>detectedConcepts\<close> has exactly the keys
  \<open>name\<close>, \<open>category\<close>, \<open>description\<close>, \<open>theory\<close>, \<open>referenceLinks\<close>, \<open>matchedWords\<close> and
  \<open>linesOfCode\<close>: the report holds no confidence.
\<close>

theorem singleton_concept_has_no_confidence:
  "singleton_shaped test_code
   \<and> \<not> sql_injection_predicate test_code \<and> \<not> xss_predicate test_code
   \<and> \<not> path_traversal_predicate test_code \<and> \<not> xxe_predicate test_code
   \<and> \<not> authentication_bypass_predicate test_code
   \<and> \<not> insecure_deserialization_predicate test_code
   \<and> (case analyze_code (Some test_code) of
        Inr r \<Rightarrow>
          detectedConcepts r \<noteq> []
          \<and> list_all (\<lambda>c. map fst c = [''name'', ''category'', ''description'', ''theory'',
                                      ''referenceLinks'', ''matchedWords'', ''linesOfCode'']
                          \<and> map_of c ''confidence'' = None)
              (detectedConcepts r)
      | Inl e \<Rightarrow> False)"
proof -
  have "CHR ''p'' \<in> set test_code" by (simp add: test_code_def)
  then have nb: "str_truthy (py_strip test_code)"
    by (rule strip_nonblank) (simp add: py_isspace_def)
  have ne: "transform_patterns test_code (count_lines_of_code test_code)
              (detect_patterns_directly test_code) \<noteq> []"
    using singleton_detected [OF test_code_shaped]
    unfolding transform_patterns_def by (simp only: map_is_Nil_conv) auto
  have "case analyze_code (Some test_code) of
        Inr r \<Rightarrow>
          detectedConcepts r \<noteq> []
          \<and> list_all (\<lambda>c. map fst c = [''name'', ''category'', ''description'', ''theory'',
                                      ''referenceLinks'', ''matchedWords'', ''linesOfCode'']
                          \<and> map_of c ''confidence'' = None)
              (detectedConcepts r)
      | Inl e \<Rightarrow> False"
    unfolding analyze_code_nonblank [OF nb]
    using ne concepts_have_no_confidence by simp
  with test_code_shaped test_code_hyps show ?thesis by blast
qed

subsection \<open>Insecure deserialization\<close>

text \<open>
  C9.  An input that contains \<open>ObjectInputStream\<close> and \<open>.readObject()\<close> and satisfies
  none of the SQL-injection, XSS, path-traversal, XXE and authentication-bypass
  predicates gets the verdict \<open>insecure_deserialization\<close> with severity \<open>CRITICAL\<close>, and
  its report has \<open>overallRisk\<close> \<open>HIGH\<close>.
\<close>

theorem deserialization_is_critical:
  assumes "py_in ''ObjectInputStream'' s" and "py_in ''.readObject()'' s"
    and "\<not> sql_injection_predicate s" and "\<not> xss_predicate s"
    and "\<not> path_traversal_predicate s" and "\<not> xxe_predicate s"
    and "\<not> authentication_bypass_predicate s"
  shows "vulnerability (detect_vulnerabilities_directly s) = ''insecure_deserialization''
       \<and> severity (detect_vulnerabilities_directly s) = ''CRITICAL''
       \<and> (\<exists>r. analyze_code (Some s) = Inr r \<and> overallRisk r = ''HIGH''
              \<and> map (\<lambda>v. map_of v ''severity'') (vulnerabilities r) = [Some (Str ''CRITICAL'')])"
proof -
  have d: "insecure_deserialization_predicate s"
    using assms(1,2) by (simp add: insecure_deserialization_predicate_def)
  note v = detect_deserialization [OF d assms(3-7)]
  have "CHR ''O'' \<in> set s" using py_in_set [OF assms(1)] by auto
  then have nb: "str_truthy (py_strip s)"
    by (rule strip_nonblank) (simp add: py_isspace_def)
  show ?thesis
    unfolding analyze_code_nonblank [OF nb] v
    by (simp add: verdict_severities_def overall_risk_cases transform_vulnerabilities_def Let_def)
qed

theorem deserialization_is_critical_witness:
  "vulnerability (detect_vulnerabilities_directly ''ObjectInputStream.readObject()'') = ''insecure_deserialization''
   \<and> (\<exists>r. analyze_code (Some ''ObjectInputStream.readObject()'') = Inr r \<and> overallRisk r = ''HIGH'')"
  using deserialization_is_critical [OF deser_hyps] by blast

subsection \<open>Recommendations\<close>

text \<open>
  C10.  The metric \<open>test_coverage\<close> is the constant 0.5, so the recommendations of every
  report contain \<open>Increase test coverage to at least 70%\<close>; the list is never empty
  and the fallback message is never emitted.
\<close>

theorem recommendations_always_coverage:
  "map_of (extract_code_metrics s) ''test_coverage'' = Some (5/10)
   \<and> (analyze_code rc = Inr r \<longrightarrow>
        ''Increase test coverage to at least 70%'' \<in> set (recommendations r)
        \<and> recommendations r \<noteq> []
        \<and> ''Code follows good practices. Continue maintaining quality standards.''
             \<notin> set (recommendations r))"
proof (intro conjI impI)
  show "map_of (extract_code_metrics s) ''test_coverage'' = Some (5/10)"
    by (simp add: metrics_test_coverage)
next
  assume a: "analyze_code rc = Inr r"
  then obtain t where t: "rc = Some t" "str_truthy (py_strip t)"
    using analyze_code_InrD by blast
  from a t have r: "recommendations r =
      generate_recommendations (verdict_severities (detect_vulnerabilities_directly t))
        (min 50 (cyclomatic_formula t)) \<lfloor>weighted_quality (extract_code_metrics t)\<rfloor>
        (extract_code_metrics t)"
    by (auto simp: analyze_code_nonblank)
  show "''Increase test coverage to at least 70%'' \<in> set (recommendations r)"
    unfolding r using recommendations_coverage by blast
  show "recommendations r \<noteq> []"
    unfolding r using recommendations_coverage by blast
  show "''Code follows good practices. Continue maintaining quality standards.''
          \<notin> set (recommendations r)"
    unfolding r using recommendations_coverage by blast
qed

theorem recommendations_always_coverage_witness:
  "\<exists>r. analyze_code (Some ''Strategy'') = Inr r
       \<and> ''Increase test coverage to at least 70%'' \<in> set (recommendations r)"
proof -
  note a = analyze_code_nonblank [OF nonblank_Strategy]
  from recommendations_always_coverage [of "''Strategy''" "Some ''Strategy''", THEN conjunct2, rule_format, OF a]
  show ?thesis unfolding a by blast
qed

end
